theory Spec2Isabelle
  imports Main "HOL-Library.AList"
begin

section \<open>The bus library seen from \<open>uwsm/dbus.py\<close>\<close>

text \<open>
  \<open>DbusInteractions\<close> owns no protocol code: every effect is a call into the
  \<open>dbus\<close> library. The library is a parameter of the model. It answers each call,
  knowing the calls made so far, with a fault or a value; the model logs every call
  with its outcome, and hands out a fresh handle for every object the library
  constructs (a bus connection, a proxy object, an interface wrapper), as Python
  gives every new object its own identity.
\<close>

text \<open>
  The Python values that cross the boundary: \<open>None\<close>, a string (also an object
  path), a list of strings, a dict from strings to strings.
\<close>

datatype pyval =
    PyNone
  | PyStr string
  | PyList "string list"
  | PyDict "(string \<times> string) list"

type_synonym handle = nat

datatype call =
    SystemBus
  | SessionBus
  | Get_object handle string pyval
  | Interface handle string
  | Method handle string "pyval list"

type_synonym fault = string

datatype error =
    ValueError string
  | KeyError string
  | TypeError string
  | DBusException fault

type_synonym event = "call \<times> fault option"

type_synonym lib = "event list \<Rightarrow> call \<Rightarrow> fault + pyval"

section \<open>The class-level cache and the program state\<close>

text \<open>
  One inner dict of \<open>dbus_objects\<close>: a field is \<open>None\<close> while its key is absent.
  \<open>unit_properties\<close> is the nested dict from unit ids to interface wrappers.
\<close>

record slots =
  bus :: "handle option"
  systemd :: "handle option"
  systemd_manager :: "handle option"
  systemd_properties :: "handle option"
  unit_properties :: "(string \<times> handle) list option"
  dbus :: "handle option"
  dbus_interface :: "handle option"

record state =
  dbus_objects :: "string \<rightharpoonup> slots"
  next_handle :: handle
  calls :: "event list"

record interactions =
  dbus_level :: string

definition empty_slots :: slots where
  "empty_slots = \<lparr>bus = None, systemd = None, systemd_manager = None,
     systemd_properties = None, unit_properties = None, dbus = None,
     dbus_interface = None\<rparr>"

text \<open>\<open>dbus_objects = {"system": {}, "session": {}}\<close>, before any library call.\<close>

definition initial_state :: state where
  "initial_state = \<lparr>dbus_objects = [''system'' \<mapsto> empty_slots, ''session'' \<mapsto> empty_slots],
     next_handle = 0, calls = []\<rparr>"

section \<open>Programs: state passing with exceptions\<close>

text \<open>
  A method is a function from the state to an outcome and the state it leaves. The
  cache is shared and mutable, so the state survives an exception.
\<close>

type_synonym 'a prog = "state \<Rightarrow> (error + 'a) \<times> state"

definition ret :: "'a \<Rightarrow> 'a prog" where
  "ret x s = (Inr x, s)"

definition throw :: "error \<Rightarrow> 'a prog" where
  "throw e s = (Inl e, s)"

definition bindE :: "'a prog \<Rightarrow> ('a \<Rightarrow> 'b prog) \<Rightarrow> 'b prog" where
  "bindE m k s = (case m s of (Inl e, s') \<Rightarrow> (Inl e, s') | (Inr x, s') \<Rightarrow> k x s')"

text \<open>
  A constructor of the library (\<open>dbus.SystemBus()\<close>, \<open>dbus.SessionBus()\<close>,
  \<open>bus.get_object(..)\<close>, \<open>dbus.Interface(..)\<close>): the call is logged; a fault is
  raised as it is, otherwise the new object gets the next handle.
\<close>

definition lib_new :: "lib \<Rightarrow> call \<Rightarrow> handle prog" where
  "lib_new L c s =
     (case L (calls s) c of
        Inl f \<Rightarrow> (Inl (DBusException f), s\<lparr>calls := calls s @ [(c, Some f)]\<rparr>)
      | Inr _ \<Rightarrow> (Inr (next_handle s),
                   s\<lparr>calls := calls s @ [(c, None)], next_handle := Suc (next_handle s)\<rparr>))"

text \<open>A method call through an interface wrapper: \<open>iface.Name(args)\<close>.\<close>

definition lib_call :: "lib \<Rightarrow> handle \<Rightarrow> string \<Rightarrow> pyval list \<Rightarrow> pyval prog" where
  "lib_call L h name args s =
     (case L (calls s) (Method h name args) of
        Inl f \<Rightarrow> (Inl (DBusException f), s\<lparr>calls := calls s @ [(Method h name args, Some f)]\<rparr>)
      | Inr v \<Rightarrow> (Inr v, s\<lparr>calls := calls s @ [(Method h name args, None)]\<rparr>))"

text \<open>\<open>self.dbus_objects[self.dbus_level]\<close>\<close>

definition objects_of :: "interactions \<Rightarrow> slots prog" where
  "objects_of self s =
     (case dbus_objects s (dbus_level self) of
        None \<Rightarrow> (Inl (KeyError (dbus_level self)), s)
      | Some d \<Rightarrow> (Inr d, s))"

text \<open>\<open>d[key]\<close>: a missing key raises \<open>KeyError\<close>.\<close>

definition item :: "string \<Rightarrow> 'a option \<Rightarrow> 'a prog" where
  "item key v = (case v of None \<Rightarrow> throw (KeyError key) | Some x \<Rightarrow> ret x)"

text \<open>\<open>self.dbus_objects[self.dbus_level][key]\<close>\<close>

definition slot :: "interactions \<Rightarrow> string \<Rightarrow> (slots \<Rightarrow> 'a option) \<Rightarrow> 'a prog" where
  "slot self key field = bindE (objects_of self) (\<lambda>d. item key (field d))"

text \<open>\<open>key not in self.dbus_objects[self.dbus_level]\<close>\<close>

definition absent :: "interactions \<Rightarrow> (slots \<Rightarrow> 'a option) \<Rightarrow> bool prog" where
  "absent self field = bindE (objects_of self) (\<lambda>d. ret (field d = None))"

text \<open>\<open>self.dbus_objects[self.dbus_level][key] = ..\<close>, as an update of the inner dict.\<close>

definition store :: "interactions \<Rightarrow> (slots \<Rightarrow> slots) \<Rightarrow> unit prog" where
  "store self upd s =
     (case dbus_objects s (dbus_level self) of
        None \<Rightarrow> (Inl (KeyError (dbus_level self)), s)
      | Some d \<Rightarrow> (Inr (), s\<lparr>dbus_objects := (dbus_objects s)(dbus_level self \<mapsto> upd d)\<rparr>))"

section \<open>\<open>DbusInteractions\<close>\<close>

definition quoted :: "string \<Rightarrow> string" where
  "quoted x = [CHR 0x27] @ x @ [CHR 0x27]"

text \<open>\<open>__init__(self, dbus_level)\<close>\<close>

definition DbusInteractions :: "lib \<Rightarrow> string \<Rightarrow> interactions prog" where
  "DbusInteractions L level =
     (if level \<in> set [''system'', ''session''] then
        (let self = \<lparr>dbus_level = level\<rparr> in
         bindE (absent self bus) (\<lambda>missing.
           if missing then
             (if level = ''system'' then
                bindE (lib_new L SystemBus) (\<lambda>b.
                bindE (store self (\<lambda>d. d\<lparr>bus := Some b\<rparr>)) (\<lambda>_. ret self))
              else
                bindE (lib_new L SessionBus) (\<lambda>b.
                bindE (store self (\<lambda>d. d\<lparr>bus := Some b\<rparr>)) (\<lambda>_. ret self)))
           else ret self))
      else
        throw (ValueError (''dbus_level can be '' @ quoted ''system'' @ '' or ''
          @ quoted ''session'' @ '', got '' @ quoted level)))"

subsection \<open>Internal functions (adding objects)\<close>

definition add_systemd :: "lib \<Rightarrow> interactions \<Rightarrow> unit prog" where
  "add_systemd L self =
     bindE (absent self systemd) (\<lambda>missing.
       if missing then
         bindE (slot self ''bus'' bus) (\<lambda>b.
         bindE (lib_new L (Get_object b ''org.freedesktop.systemd1''
                  (PyStr ''/org/freedesktop/systemd1''))) (\<lambda>obj.
         store self (\<lambda>d. d\<lparr>systemd := Some obj\<rparr>)))
       else ret ())"

definition add_systemd_manager :: "lib \<Rightarrow> interactions \<Rightarrow> unit prog" where
  "add_systemd_manager L self =
     bindE (add_systemd L self) (\<lambda>_.
     bindE (absent self systemd_manager) (\<lambda>missing.
       if missing then
         bindE (slot self ''systemd'' systemd) (\<lambda>obj.
         bindE (lib_new L (Interface obj ''org.freedesktop.systemd1.Manager'')) (\<lambda>iface.
         store self (\<lambda>d. d\<lparr>systemd_manager := Some iface\<rparr>)))
       else ret ()))"

definition add_systemd_properties :: "lib \<Rightarrow> interactions \<Rightarrow> unit prog" where
  "add_systemd_properties L self =
     bindE (add_systemd L self) (\<lambda>_.
     bindE (absent self systemd_properties) (\<lambda>missing.
       if missing then
         bindE (slot self ''systemd'' systemd) (\<lambda>obj.
         bindE (lib_new L (Interface obj ''org.freedesktop.DBus.Properties'')) (\<lambda>iface.
         store self (\<lambda>d. d\<lparr>systemd_properties := Some iface\<rparr>)))
       else ret ()))"

text \<open>
  \<open>self.dbus_objects[self.dbus_level]["unit_properties"][unit_id] = iface\<close>: the
  nested dict is looked up, then written. The key is new where the source does
  this, so the entry goes to the end; \<open>AList.update\<close> also covers a key that
  exists.
\<close>

definition store_unit :: "interactions \<Rightarrow> string \<Rightarrow> handle \<Rightarrow> unit prog" where
  "store_unit self unit_id iface =
     bindE (slot self ''unit_properties'' unit_properties) (\<lambda>units.
     store self (\<lambda>d. d\<lparr>unit_properties := Some (AList.update unit_id iface units)\<rparr>))"

definition add_systemd_unit_properties :: "lib \<Rightarrow> interactions \<Rightarrow> string \<Rightarrow> unit prog" where
  "add_systemd_unit_properties L self unit_id =
     bindE (add_systemd_manager L self) (\<lambda>_.
     bindE (slot self ''bus'' bus) (\<lambda>b.
     bindE (slot self ''systemd_manager'' systemd_manager) (\<lambda>manager.
     bindE (lib_call L manager ''GetUnit'' [PyStr unit_id]) (\<lambda>path.
     bindE (lib_new L (Get_object b ''org.freedesktop.systemd1'' path)) (\<lambda>unit_path.
     bindE (absent self unit_properties) (\<lambda>missing.
     bindE (if missing then store self (\<lambda>d. d\<lparr>unit_properties := Some []\<rparr>) else ret ()) (\<lambda>_.
     bindE (slot self ''unit_properties'' unit_properties) (\<lambda>units.
       if map_of units unit_id = None then
         bindE (lib_new L (Interface unit_path ''org.freedesktop.DBus.Properties'')) (\<lambda>iface.
         store_unit self unit_id iface)
       else ret ()))))))))"

definition add_dbus :: "lib \<Rightarrow> interactions \<Rightarrow> unit prog" where
  "add_dbus L self =
     bindE (absent self dbus) (\<lambda>missing.
       if missing then
         bindE (slot self ''bus'' bus) (\<lambda>b.
         bindE (lib_new L (Get_object b ''org.freedesktop.DBus''
                  (PyStr ''/org/freedesktop/DBus''))) (\<lambda>obj.
         store self (\<lambda>d. d\<lparr>dbus := Some obj\<rparr>)))
       else ret ())"

definition add_dbus_interface :: "lib \<Rightarrow> interactions \<Rightarrow> unit prog" where
  "add_dbus_interface L self =
     bindE (add_dbus L self) (\<lambda>_.
     bindE (absent self dbus_interface) (\<lambda>missing.
       if missing then
         bindE (slot self ''dbus'' dbus) (\<lambda>obj.
         bindE (lib_new L (Interface obj ''org.freedesktop.DBus'')) (\<lambda>iface.
         store self (\<lambda>d. d\<lparr>dbus_interface := Some iface\<rparr>)))
       else ret ()))"

subsection \<open>External functions (doing stuff via objects)\<close>

definition get_unit_property :: "lib \<Rightarrow> interactions \<Rightarrow> string \<Rightarrow> string \<Rightarrow> pyval prog" where
  "get_unit_property L self unit_id unit_property =
     bindE (add_systemd_unit_properties L self unit_id) (\<lambda>_.
     bindE (slot self ''unit_properties'' unit_properties) (\<lambda>units.
     bindE (item unit_id (map_of units unit_id)) (\<lambda>iface.
     lib_call L iface ''Get'' [PyStr ''org.freedesktop.systemd1.Unit'', PyStr unit_property])))"

definition reload_systemd :: "lib \<Rightarrow> interactions \<Rightarrow> pyval prog" where
  "reload_systemd L self =
     bindE (add_systemd_manager L self) (\<lambda>_.
     bindE (slot self ''systemd_manager'' systemd_manager) (\<lambda>manager.
     lib_call L manager ''Reload'' []))"

definition list_systemd_jobs :: "lib \<Rightarrow> interactions \<Rightarrow> pyval prog" where
  "list_systemd_jobs L self =
     bindE (add_systemd_manager L self) (\<lambda>_.
     bindE (slot self ''systemd_manager'' systemd_manager) (\<lambda>manager.
     lib_call L manager ''ListJobs'' []))"

definition set_dbus_vars :: "lib \<Rightarrow> interactions \<Rightarrow> (string \<times> string) list \<Rightarrow> unit prog" where
  "set_dbus_vars L self vars_dict =
     bindE (add_dbus_interface L self) (\<lambda>_.
     bindE (slot self ''dbus_interface'' dbus_interface) (\<lambda>iface.
     bindE (lib_call L iface ''UpdateActivationEnvironment'' [PyDict vars_dict]) (\<lambda>_.
     ret ())))"

text \<open>\<open>[f"{var}={value}" for var, value in vars_dict.items()]\<close>\<close>

definition assignments_of :: "(string \<times> string) list \<Rightarrow> string list" where
  "assignments_of vars_dict = map (\<lambda>(var, val). var @ ''='' @ val) vars_dict"

definition set_systemd_vars :: "lib \<Rightarrow> interactions \<Rightarrow> (string \<times> string) list \<Rightarrow> unit prog" where
  "set_systemd_vars L self vars_dict =
     bindE (add_systemd_manager L self) (\<lambda>_.
     (let assignments = assignments_of vars_dict in
      bindE (slot self ''systemd_manager'' systemd_manager) (\<lambda>manager.
      bindE (lib_call L manager ''SetEnvironment'' [PyList assignments]) (\<lambda>_.
      ret ()))))"

definition unset_systemd_vars :: "lib \<Rightarrow> interactions \<Rightarrow> string list \<Rightarrow> unit prog" where
  "unset_systemd_vars L self vars_list =
     bindE (add_systemd_manager L self) (\<lambda>_.
     bindE (slot self ''systemd_manager'' systemd_manager) (\<lambda>manager.
     bindE (lib_call L manager ''UnsetEnvironment'' [PyList vars_list]) (\<lambda>_.
     ret ())))"

text \<open>
  \<open>[str(x) for x in v]\<close>: what a \<open>for\<close> loop over the value yields, each element
  through \<open>str\<close>. A string yields its characters, a dict its keys, \<open>None\<close> is not
  iterable.
\<close>

fun iterate :: "pyval \<Rightarrow> error + string list" where
  "iterate PyNone = Inl (TypeError (quoted ''NoneType'' @ '' object is not iterable''))"
| "iterate (PyStr s) = Inr (map (\<lambda>c. [c]) s)"
| "iterate (PyList xs) = Inr xs"
| "iterate (PyDict d) = Inr (map fst d)"

text \<open>\<open>s.split(sep, maxsplit=1)\<close> for a separator of one character.\<close>

definition split1 :: "char \<Rightarrow> string \<Rightarrow> string list" where
  "split1 sep s =
     (if sep \<in> set s then [takeWhile (\<lambda>c. c \<noteq> sep) s, tl (dropWhile (\<lambda>c. c \<noteq> sep) s)]
      else [s])"

text \<open>\<open>var, value = parts\<close>: unpacking needs exactly two parts.\<close>

fun unpack2 :: "string list \<Rightarrow> error + string \<times> string" where
  "unpack2 [] = Inl (ValueError ''not enough values to unpack (expected 2, got 0)'')"
| "unpack2 [a] = Inl (ValueError ''not enough values to unpack (expected 2, got 1)'')"
| "unpack2 [a, b] = Inr (a, b)"
| "unpack2 (a # b # c # rest) = Inl (ValueError ''too many values to unpack (expected 2)'')"

text \<open>The loop of \<open>get_systemd_vars\<close>; \<open>env.update({var: value})\<close> is \<open>AList.update\<close>.\<close>

fun env_loop :: "string list \<Rightarrow> (string \<times> string) list \<Rightarrow> error + (string \<times> string) list" where
  "env_loop [] env = Inr env"
| "env_loop (assignment # rest) env =
     (case unpack2 (split1 CHR ''='' assignment) of
        Inl e \<Rightarrow> Inl e
      | Inr (var, val) \<Rightarrow> env_loop rest (AList.update var val env))"

definition lift :: "error + 'a \<Rightarrow> 'a prog" where
  "lift r = (case r of Inl e \<Rightarrow> throw e | Inr x \<Rightarrow> ret x)"

definition get_systemd_vars :: "lib \<Rightarrow> interactions \<Rightarrow> (string \<times> string) list prog" where
  "get_systemd_vars L self =
     bindE (add_systemd_properties L self) (\<lambda>_.
     bindE (slot self ''systemd_properties'' systemd_properties) (\<lambda>props.
     bindE (lib_call L props ''Get''
              [PyStr ''org.freedesktop.systemd1.Manager'', PyStr ''Environment'']) (\<lambda>assignments.
     bindE (lift (iterate assignments)) (\<lambda>items.
     lift (env_loop items [])))))"

definition list_units_by_patterns ::
    "lib \<Rightarrow> interactions \<Rightarrow> string list \<Rightarrow> string list \<Rightarrow> pyval prog" where
  "list_units_by_patterns L self states patterns =
     bindE (add_systemd_manager L self) (\<lambda>_.
     bindE (slot self ''systemd_manager'' systemd_manager) (\<lambda>manager.
     lib_call L manager ''ListUnitsByPatterns'' [PyList states, PyList patterns]))"

text \<open>
  \<open>stop_unit(self, unit, job_mode="fail")\<close>: \<open>None\<close> is a call that leaves
  \<open>job_mode\<close> out.
\<close>

definition stop_unit :: "lib \<Rightarrow> interactions \<Rightarrow> string \<Rightarrow> string option \<Rightarrow> pyval prog" where
  "stop_unit L self unit job_mode =
     bindE (add_systemd_manager L self) (\<lambda>_.
     bindE (slot self ''systemd_manager'' systemd_manager) (\<lambda>manager.
     lib_call L manager ''StopUnit''
       [PyStr unit, PyStr (case job_mode of None \<Rightarrow> ''fail'' | Some m \<Rightarrow> m)]))"

section \<open>Running the class\<close>

text \<open>
  The methods of an instance, as one type, so that a statement can range over every
  method. A method that returns nothing returns \<open>None\<close>.
\<close>

datatype operation =
    Add_systemd
  | Add_systemd_manager
  | Add_systemd_properties
  | Add_systemd_unit_properties string
  | Add_dbus
  | Add_dbus_interface
  | Get_unit_property string string
  | Reload_systemd
  | List_systemd_jobs
  | Set_dbus_vars "(string \<times> string) list"
  | Set_systemd_vars "(string \<times> string) list"
  | Unset_systemd_vars "string list"
  | Get_systemd_vars
  | List_units_by_patterns "string list" "string list"
  | Stop_unit string "string option"

fun perform :: "lib \<Rightarrow> interactions \<Rightarrow> operation \<Rightarrow> pyval prog" where
  "perform L self Add_systemd = bindE (add_systemd L self) (\<lambda>_. ret PyNone)"
| "perform L self Add_systemd_manager = bindE (add_systemd_manager L self) (\<lambda>_. ret PyNone)"
| "perform L self Add_systemd_properties =
     bindE (add_systemd_properties L self) (\<lambda>_. ret PyNone)"
| "perform L self (Add_systemd_unit_properties unit_id) =
     bindE (add_systemd_unit_properties L self unit_id) (\<lambda>_. ret PyNone)"
| "perform L self Add_dbus = bindE (add_dbus L self) (\<lambda>_. ret PyNone)"
| "perform L self Add_dbus_interface = bindE (add_dbus_interface L self) (\<lambda>_. ret PyNone)"
| "perform L self (Get_unit_property unit_id unit_property) =
     get_unit_property L self unit_id unit_property"
| "perform L self Reload_systemd = reload_systemd L self"
| "perform L self List_systemd_jobs = list_systemd_jobs L self"
| "perform L self (Set_dbus_vars vars_dict) =
     bindE (set_dbus_vars L self vars_dict) (\<lambda>_. ret PyNone)"
| "perform L self (Set_systemd_vars vars_dict) =
     bindE (set_systemd_vars L self vars_dict) (\<lambda>_. ret PyNone)"
| "perform L self (Unset_systemd_vars vars_list) =
     bindE (unset_systemd_vars L self vars_list) (\<lambda>_. ret PyNone)"
| "perform L self Get_systemd_vars = bindE (get_systemd_vars L self) (\<lambda>env. ret (PyDict env))"
| "perform L self (List_units_by_patterns states patterns) =
     list_units_by_patterns L self states patterns"
| "perform L self (Stop_unit unit job_mode) = stop_unit L self unit job_mode"

text \<open>\<open>for _ in range(n): m()\<close>\<close>

fun repeat :: "nat \<Rightarrow> 'a prog \<Rightarrow> unit prog" where
  "repeat 0 m = ret ()"
| "repeat (Suc n) m = bindE m (\<lambda>_. repeat n m)"

section \<open>What the statements speak about\<close>

text \<open>The calls an execution added to the log.\<close>

definition issued :: "state \<Rightarrow> state \<Rightarrow> event list" where
  "issued s s' = drop (length (calls s)) (calls s')"

text \<open>The remote method calls among logged events, in order.\<close>

fun is_method :: "call \<Rightarrow> bool" where
  "is_method (Method h name args) = True"
| "is_method c = False"

definition remote_calls :: "event list \<Rightarrow> call list" where
  "remote_calls es = filter is_method (map fst es)"

text \<open>The constructor \<open>__init__\<close> uses for a level.\<close>

definition connect_call :: "string \<Rightarrow> call" where
  "connect_call level = (if level = ''system'' then SystemBus else SessionBus)"

text \<open>No logged call of the list faulted.\<close>

definition clean :: "event list \<Rightarrow> bool" where
  "clean es = list_all (\<lambda>e. snd e = None) es"

text \<open>The wrapper cached for a unit id at a level, if any.\<close>

definition unit_wrapper :: "state \<Rightarrow> string \<Rightarrow> string \<Rightarrow> handle option" where
  "unit_wrapper s level unit_id =
     (case dbus_objects s level of
        None \<Rightarrow> None
      | Some d \<Rightarrow> (case unit_properties d of None \<Rightarrow> None | Some units \<Rightarrow> map_of units unit_id))"

text \<open>A handle of the inner dict, by key.\<close>

definition cached :: "state \<Rightarrow> string \<Rightarrow> (slots \<Rightarrow> 'a option) \<Rightarrow> 'a option" where
  "cached s level field = (case dbus_objects s level of None \<Rightarrow> None | Some d \<Rightarrow> field d)"

text \<open>Everything cached in \<open>d\<close> is cached in \<open>d'\<close>, unchanged.\<close>

definition extends :: "slots \<Rightarrow> slots \<Rightarrow> bool" where
  "extends d d' \<longleftrightarrow>
     (bus d \<noteq> None \<longrightarrow> bus d' = bus d) \<and>
     (systemd d \<noteq> None \<longrightarrow> systemd d' = systemd d) \<and>
     (systemd_manager d \<noteq> None \<longrightarrow> systemd_manager d' = systemd_manager d) \<and>
     (systemd_properties d \<noteq> None \<longrightarrow> systemd_properties d' = systemd_properties d) \<and>
     (dbus d \<noteq> None \<longrightarrow> dbus d' = dbus d) \<and>
     (dbus_interface d \<noteq> None \<longrightarrow> dbus_interface d' = dbus_interface d) \<and>
     (\<forall>us. unit_properties d = Some us \<longrightarrow>
        (\<exists>us'. unit_properties d' = Some us' \<and>
           (\<forall>u. map_of us u \<noteq> None \<longrightarrow> map_of us' u = map_of us u)))"

definition keeps :: "state \<Rightarrow> state \<Rightarrow> bool" where
  "keeps s s' \<longleftrightarrow>
     (\<forall>l d. dbus_objects s l = Some d \<longrightarrow> (\<exists>d'. dbus_objects s' l = Some d' \<and> extends d d'))"

text \<open>
  Dependency order inside one inner dict: connection, then object, then
  interface, then per-unit interface.
\<close>

definition closed :: "slots \<Rightarrow> bool" where
  "closed d \<longleftrightarrow>
     (systemd d \<noteq> None \<longrightarrow> bus d \<noteq> None) \<and>
     (systemd_manager d \<noteq> None \<longrightarrow> systemd d \<noteq> None) \<and>
     (systemd_properties d \<noteq> None \<longrightarrow> systemd d \<noteq> None) \<and>
     (unit_properties d \<noteq> None \<longrightarrow> systemd_manager d \<noteq> None) \<and>
     (dbus d \<noteq> None \<longrightarrow> bus d \<noteq> None) \<and>
     (dbus_interface d \<noteq> None \<longrightarrow> dbus d \<noteq> None)"

definition all_closed :: "state \<Rightarrow> bool" where
  "all_closed s \<longleftrightarrow> (\<forall>l d. dbus_objects s l = Some d \<longrightarrow> closed d)"

definition closed_step :: "state \<Rightarrow> state \<Rightarrow> bool" where
  "closed_step s s' \<longleftrightarrow> (all_closed s \<longrightarrow> all_closed s')"

text \<open>
  The nested dicts hold one wrapper per unit id, no wrapper twice, and only
  handles that were handed out.
\<close>

definition sound :: "state \<Rightarrow> bool" where
  "sound s \<longleftrightarrow>
     (\<forall>l d us. dbus_objects s l = Some d \<longrightarrow> unit_properties d = Some us \<longrightarrow>
        distinct (map fst us) \<and> distinct (map snd us) \<and>
        (\<forall>w \<in> set (map snd us). w < next_handle s))"

definition sound_step :: "state \<Rightarrow> state \<Rightarrow> bool" where
  "sound_step s s' \<longleftrightarrow> (sound s \<longrightarrow> sound s')"



text \<open>Every execution of \<open>m\<close> relates the state before to the state after.\<close>

definition preserves :: "(state \<Rightarrow> state \<Rightarrow> bool) \<Rightarrow> 'a prog \<Rightarrow> bool" where
  "preserves R m = (\<forall>s. R s (snd (m s)))"


text \<open>
  An execution only adds to the log; when a call of the library faults, it is the
  last call of the execution and the outcome is that fault.
\<close>

definition passes_faults :: "'a prog \<Rightarrow> bool" where
  "passes_faults m \<longleftrightarrow>
     (\<forall>s. \<exists>es. calls (snd (m s)) = calls s @ es \<and>
        (clean es \<or>
         (\<exists>es0 c f. es = es0 @ [(c, Some f)] \<and> clean es0 \<and> fst (m s) = Inl (DBusException f))))"

text \<open>Every successful execution of \<open>m\<close> ends in a state with \<open>Q\<close>.\<close>

definition ensures :: "(state \<Rightarrow> bool) \<Rightarrow> 'a prog \<Rightarrow> bool" where
  "ensures Q m \<longleftrightarrow> (\<forall>s x s'. m s = (Inr x, s') \<longrightarrow> Q s')"

text \<open>The log grew, and by no remote method call.\<close>

definition quiet :: "state \<Rightarrow> state \<Rightarrow> bool" where
  "quiet s s' \<longleftrightarrow> (\<exists>es. calls s' = calls s @ es \<and> remote_calls es = [])"

text \<open>A library that never faults.\<close>

definition answers :: "lib \<Rightarrow> bool" where
  "answers L \<longleftrightarrow> (\<forall>history c. \<exists>v. L history c = Inr v)"

section \<open>Concrete libraries and runs\<close>

text \<open>A library that never faults and answers every call with the path of one unit.\<close>

definition foo_lib :: lib where
  "foo_lib history c = Inr (PyStr ''/org/freedesktop/systemd1/unit/foo_2eservice'')"

text \<open>
  \<open>d = DbusInteractions("session"); d.add_systemd_unit_properties("foo.service")\<close>,
  once and twice, on the cache as the class body leaves it.
\<close>

definition foo_once :: "unit prog" where
  "foo_once =
     bindE (DbusInteractions foo_lib ''session'') (\<lambda>self.
     add_systemd_unit_properties foo_lib self ''foo.service'')"

definition foo_twice :: "unit prog" where
  "foo_twice =
     bindE (DbusInteractions foo_lib ''session'') (\<lambda>self.
     bindE (add_systemd_unit_properties foo_lib self ''foo.service'') (\<lambda>_.
     add_systemd_unit_properties foo_lib self ''foo.service''))"

text \<open>A session instance, and the state its construction leaves.\<close>

definition session :: interactions where
  "session = \<lparr>dbus_level = ''session''\<rparr>"

definition session_state :: state where
  "session_state = snd (DbusInteractions foo_lib ''session'' initial_state)"

text \<open>A library on which \<open>GetUnit\<close> faults: the unit is not loaded.\<close>

definition no_unit_lib :: lib where
  "no_unit_lib history c =
     (case c of
        Method h name args \<Rightarrow>
          if name = ''GetUnit'' then Inl ''org.freedesktop.systemd1.NoSuchUnit'' else Inr PyNone
      | _ \<Rightarrow> Inr PyNone)"


text \<open>Libraries whose every answer is one \<open>Environment\<close> array.\<close>

definition env_lib :: lib where
  "env_lib history c = Inr (PyList [''A=1'', ''B=two=three''])"

definition malformed_lib :: lib where
  "malformed_lib history c = Inr (PyList [''A=1'', ''B''])"

text \<open>The session cache after an access to one unit, and then to a second one.\<close>

definition foo_state :: state where
  "foo_state =
     snd (perform foo_lib session (Add_systemd_unit_properties ''foo.service'') session_state)"

definition foo_bar_state :: state where
  "foo_bar_state =
     snd (perform foo_lib session (Add_systemd_unit_properties ''bar.service'') foo_state)"

section \<open>How executions change the state\<close>

text \<open>
  Lemmas about the steps of the model and about whole methods: each property is
  shown for the primitive steps, carried through \<open>bindE\<close>, and so reaches
  construction, the accessors and every method.
\<close>

subsection \<open>Sequencing\<close>

lemma bindE_Inr: "m s = (Inr x, s1) \<Longrightarrow> bindE m k s = k x s1"
  by (simp add: bindE_def)

lemma bindE_Inl: "m s = (Inl e, s1) \<Longrightarrow> bindE m k s = (Inl e, s1)"
  by (simp add: bindE_def)

lemma unchanged:
  "snd (ret x s) = s" "snd (throw e s) = s" "snd (objects_of self s) = s"
  "snd (item key v s) = s" "snd (slot self key field s) = s"
  "snd (absent self field s) = s" "snd (lift r s) = s"
  by (simp_all add: ret_def throw_def objects_of_def item_def slot_def absent_def lift_def
      bindE_def split: option.splits sum.splits)

lemma preserves_bindE:
  assumes refl: "reflp R" and trans: "transp R"
    and m: "preserves R m" and k: "\<And>x. preserves R (k x)"
  shows "preserves R (bindE m k)"
  unfolding preserves_def
proof
  fix s
  obtain r s1 where ms: "m s = (r, s1)" by (cases "m s")
  have 1: "R s s1" using m ms unfolding preserves_def by (metis snd_conv)
  show "R s (snd (bindE m k s))"
  proof (cases r)
    case (Inl e)
    then show ?thesis using ms 1 by (simp add: bindE_Inl)
  next
    case (Inr x)
    have "R s1 (snd (k x s1))" using k unfolding preserves_def by blast
    then show ?thesis using ms Inr 1 trans by (auto simp: bindE_Inr elim: transpE)
  qed
qed

lemma preserves_unchanged:
  assumes "reflp R"
  shows "preserves R (ret x)" "preserves R (throw e)" "preserves R (objects_of self)"
    "preserves R (item key v)" "preserves R (slot self key field)"
    "preserves R (absent self field)" "preserves R (lift r)"
  using assms by (simp_all add: preserves_def unchanged reflpD)

lemma preserves_if:
  "(b \<Longrightarrow> preserves R m) \<Longrightarrow> (\<not> b \<Longrightarrow> preserves R n) \<Longrightarrow> preserves R (if b then m else n)"
  by simp

subsection \<open>The other levels\<close>

















lemmas operations = get_unit_property_def reload_systemd_def list_systemd_jobs_def
  set_dbus_vars_def set_systemd_vars_def unset_systemd_vars_def get_systemd_vars_def
  list_units_by_patterns_def stop_unit_def Let_def


subsection \<open>The own level's view\<close>


















subsection \<open>Faults of the library\<close>

lemma clean_simps:
  "clean []" "clean (es @ es') \<longleftrightarrow> clean es \<and> clean es'" "clean [(c, None)]"
  "\<not> clean [(c, Some f)]"
  by (simp_all add: clean_def)

lemma passes_bindE:
  assumes m: "passes_faults m" and k: "\<And>x. passes_faults (k x)"
  shows "passes_faults (bindE m k)"
  unfolding passes_faults_def
proof
  fix s
  obtain r s1 where ms: "m s = (r, s1)" by (cases "m s")
  from m obtain es1 where es1: "calls s1 = calls s @ es1"
    and c1: "clean es1 \<or>
      (\<exists>es0 c f. es1 = es0 @ [(c, Some f)] \<and> clean es0 \<and> r = Inl (DBusException f))"
    unfolding passes_faults_def using ms by (metis fst_conv snd_conv)
  show "\<exists>es. calls (snd (bindE m k s)) = calls s @ es \<and>
        (clean es \<or> (\<exists>es0 c f. es = es0 @ [(c, Some f)] \<and> clean es0 \<and>
           fst (bindE m k s) = Inl (DBusException f)))"
  proof (cases r)
    case (Inl e)
    then show ?thesis using ms es1 c1 by (simp add: bindE_Inl)
  next
    case (Inr x)
    obtain r2 s2 where ks: "k x s1 = (r2, s2)" by (cases "k x s1")
    from k [of x] obtain es2 where es2: "calls s2 = calls s1 @ es2"
      and c2: "clean es2 \<or>
        (\<exists>es0 c f. es2 = es0 @ [(c, Some f)] \<and> clean es0 \<and> r2 = Inl (DBusException f))"
      unfolding passes_faults_def using ks by (metis fst_conv snd_conv)
    have cl1: "clean es1" using c1 Inr by auto
    have b: "bindE m k s = (r2, s2)" using ms Inr ks by (simp add: bindE_Inr)
    from c2 show ?thesis
    proof
      assume "clean es2"
      then show ?thesis using b es1 es2 cl1 by (auto simp: clean_simps)
    next
      assume "\<exists>es0 c f. es2 = es0 @ [(c, Some f)] \<and> clean es0 \<and> r2 = Inl (DBusException f)"
      then obtain es0 c f where e: "es2 = es0 @ [(c, Some f)]" "clean es0"
        "r2 = Inl (DBusException f)" by blast
      have "calls (snd (bindE m k s)) = calls s @ (es1 @ es0) @ [(c, Some f)]"
        using b es1 es2 e by simp
      moreover have "clean (es1 @ es0)" using cl1 e by (simp add: clean_simps)
      ultimately show ?thesis using b e(3) by (metis append.assoc fst_conv)
    qed
  qed
qed

lemma passes_silent:
  assumes "\<And>s. snd (m s) = s"
  shows "passes_faults m"
  using assms by (simp add: passes_faults_def clean_simps)

lemmas passes_pure = passes_silent [of "ret x" for x, OF unchanged(1)]
  passes_silent [of "throw e" for e, OF unchanged(2)]
  passes_silent [of "objects_of self" for self, OF unchanged(3)]
  passes_silent [of "item key v" for key v, OF unchanged(4)]
  passes_silent [of "slot self key field" for self key field, OF unchanged(5)]
  passes_silent [of "absent self field" for self field, OF unchanged(6)]
  passes_silent [of "lift r" for r, OF unchanged(7)]

lemma passes_lib:
  "passes_faults (lib_new L c)" "passes_faults (lib_call L h name args)"
  by (auto simp: passes_faults_def lib_new_def lib_call_def clean_simps split: sum.splits)

lemma passes_store: "passes_faults (store self upd)"
  by (simp add: passes_faults_def store_def clean_simps split: option.splits)

lemma passes_if:
  "(b \<Longrightarrow> passes_faults m) \<Longrightarrow> (\<not> b \<Longrightarrow> passes_faults n) \<Longrightarrow>
   passes_faults (if b then m else n)"
  by simp

lemmas passes_steps = passes_bindE passes_pure passes_lib passes_store passes_if

lemma passes_store_unit: "passes_faults (store_unit self unit_id iface)"
  unfolding store_unit_def by (intro passes_steps)

lemma passes_DbusInteractions: "passes_faults (DbusInteractions L level)"
  unfolding DbusInteractions_def Let_def by (intro passes_steps)

lemma passes_add_systemd: "passes_faults (add_systemd L self)"
  unfolding add_systemd_def by (intro passes_steps)

lemma passes_add_systemd_manager: "passes_faults (add_systemd_manager L self)"
  unfolding add_systemd_manager_def by (intro passes_steps passes_add_systemd)

lemma passes_add_systemd_properties: "passes_faults (add_systemd_properties L self)"
  unfolding add_systemd_properties_def by (intro passes_steps passes_add_systemd)

lemma passes_add_systemd_unit_properties:
  "passes_faults (add_systemd_unit_properties L self unit_id)"
  unfolding add_systemd_unit_properties_def
  by (intro passes_steps passes_store_unit passes_add_systemd_manager)

lemma passes_add_dbus: "passes_faults (add_dbus L self)"
  unfolding add_dbus_def by (intro passes_steps)

lemma passes_add_dbus_interface: "passes_faults (add_dbus_interface L self)"
  unfolding add_dbus_interface_def by (intro passes_steps passes_add_dbus)

lemmas passes_accessors = passes_add_systemd passes_add_systemd_manager
  passes_add_systemd_properties passes_add_systemd_unit_properties passes_add_dbus
  passes_add_dbus_interface

lemma passes_perform: "passes_faults (perform L self op)"
  by (cases op; simp only: perform.simps operations;
      intro passes_steps passes_store_unit passes_accessors)

subsection \<open>Every method, from its accessors\<close>

lemma preserves_perform:
  assumes refl: "reflp R" and trans: "transp R"
    and lib: "\<And>h name args. preserves R (lib_call L h name args)"
    and acc: "preserves R (add_systemd L self)" "preserves R (add_systemd_manager L self)"
      "preserves R (add_systemd_properties L self)"
      "\<And>unit_id. preserves R (add_systemd_unit_properties L self unit_id)"
      "preserves R (add_dbus L self)" "preserves R (add_dbus_interface L self)"
  shows "preserves R (perform L self op)"
  by (cases op; simp only: perform.simps operations;
      intro preserves_bindE [of R, OF refl trans] preserves_unchanged [of R, OF refl] lib acc)

subsection \<open>Nothing cached is lost\<close>

lemma extends_refl: "extends d d"
  by (simp add: extends_def)

lemma extends_trans:
  assumes "extends a b" "extends b c"
  shows "extends a c"
proof -
  have u: "\<forall>us. unit_properties a = Some us \<longrightarrow>
        (\<exists>us'. unit_properties c = Some us' \<and>
           (\<forall>u. map_of us u \<noteq> None \<longrightarrow> map_of us' u = map_of us u))"
  proof (intro allI impI)
    fix us
    assume "unit_properties a = Some us"
    then obtain us1 where 1: "unit_properties b = Some us1"
      "\<forall>u. map_of us u \<noteq> None \<longrightarrow> map_of us1 u = map_of us u"
      using assms(1) unfolding extends_def by blast
    then obtain us2 where 2: "unit_properties c = Some us2"
      "\<forall>u. map_of us1 u \<noteq> None \<longrightarrow> map_of us2 u = map_of us1 u"
      using assms(2) unfolding extends_def by blast
    show "\<exists>us'. unit_properties c = Some us' \<and>
        (\<forall>u. map_of us u \<noteq> None \<longrightarrow> map_of us' u = map_of us u)"
      using 1 2 by auto
  qed
  have "bus a \<noteq> None \<longrightarrow> bus c = bus a"
    using assms unfolding extends_def by auto
  moreover have "systemd a \<noteq> None \<longrightarrow> systemd c = systemd a"
    using assms unfolding extends_def by auto
  moreover have "systemd_manager a \<noteq> None \<longrightarrow> systemd_manager c = systemd_manager a"
    using assms unfolding extends_def by auto
  moreover have "systemd_properties a \<noteq> None \<longrightarrow> systemd_properties c = systemd_properties a"
    using assms unfolding extends_def by auto
  moreover have "dbus a \<noteq> None \<longrightarrow> dbus c = dbus a"
    using assms unfolding extends_def by auto
  moreover have "dbus_interface a \<noteq> None \<longrightarrow> dbus_interface c = dbus_interface a"
    using assms unfolding extends_def by auto
  ultimately show ?thesis using u unfolding extends_def by blast
qed

lemma keeps_refl: "reflp keeps"
  by (rule reflpI) (simp add: keeps_def extends_refl)

lemma keeps_trans: "transp keeps"
  by (rule transpI) (unfold keeps_def, meson extends_trans)

lemmas keeps_bindE = preserves_bindE [of keeps, OF keeps_refl keeps_trans]

lemma keeps_lib:
  "preserves keeps (lib_new L c)" "preserves keeps (lib_call L h name args)"
  by (simp_all add: preserves_def keeps_def extends_refl lib_new_def lib_call_def
      split: sum.splits)

lemmas prims = ret_def throw_def bindE_def lib_new_def lib_call_def objects_of_def item_def
  slot_def absent_def store_def store_unit_def

lemma keeps_guarded:
  assumes "\<And>d h. field d = None \<Longrightarrow> extends d (upd h d)"
  shows "preserves keeps
    (bindE (absent self field) (\<lambda>missing.
       if missing then
         bindE (slot self key pre) (\<lambda>b.
         bindE (lib_new L (c b)) (\<lambda>h. store self (upd h)))
       else ret ()))"
  using assms
  by (auto simp: preserves_def keeps_def extends_refl prims split: option.splits sum.splits)

lemma keeps_add_systemd: "preserves keeps (add_systemd L self)"
  unfolding add_systemd_def by (rule keeps_guarded) (simp add: extends_def)

lemma keeps_add_dbus: "preserves keeps (add_dbus L self)"
  unfolding add_dbus_def by (rule keeps_guarded) (simp add: extends_def)

lemma keeps_add_systemd_manager: "preserves keeps (add_systemd_manager L self)"
  unfolding add_systemd_manager_def
  by (rule keeps_bindE, rule keeps_add_systemd, rule keeps_guarded) (simp add: extends_def)

lemma keeps_add_systemd_properties: "preserves keeps (add_systemd_properties L self)"
  unfolding add_systemd_properties_def
  by (rule keeps_bindE, rule keeps_add_systemd, rule keeps_guarded) (simp add: extends_def)

lemma keeps_add_dbus_interface: "preserves keeps (add_dbus_interface L self)"
  unfolding add_dbus_interface_def
  by (rule keeps_bindE, rule keeps_add_dbus, rule keeps_guarded) (simp add: extends_def)

lemma update_fresh: "map_of al k = None \<Longrightarrow> AList.update k v al = al @ [(k, v)]"
  by (induction al) (auto split: if_splits)

lemma keeps_unit_tail:
  "preserves keeps
     (bindE (absent self unit_properties) (\<lambda>missing.
      bindE (if missing then store self (\<lambda>d. d\<lparr>unit_properties := Some []\<rparr>) else ret ()) (\<lambda>_.
      bindE (slot self ''unit_properties'' unit_properties) (\<lambda>units.
        if map_of units unit_id = None then
          bindE (lib_new L (Interface unit_path ''org.freedesktop.DBus.Properties'')) (\<lambda>iface.
          store_unit self unit_id iface)
        else ret ()))))"
  by (auto simp: preserves_def keeps_def extends_refl prims update_fresh
      split: option.splits sum.splits) (auto simp: extends_def)

lemmas keeps_steps = keeps_bindE preserves_unchanged [of keeps, OF keeps_refl] keeps_lib

lemma keeps_add_systemd_unit_properties:
  "preserves keeps (add_systemd_unit_properties L self unit_id)"
  unfolding add_systemd_unit_properties_def
  by (intro keeps_steps keeps_add_systemd_manager keeps_unit_tail)

lemma keeps_DbusInteractions: "preserves keeps (DbusInteractions L level)"
  by (auto simp: DbusInteractions_def Let_def preserves_def keeps_def extends_refl prims
      split: option.splits sum.splits) (auto simp: extends_def)

lemma keeps_perform: "preserves keeps (perform L self op)"
  by (intro preserves_perform keeps_refl keeps_trans keeps_lib keeps_add_systemd
      keeps_add_systemd_manager keeps_add_systemd_properties
      keeps_add_systemd_unit_properties keeps_add_dbus keeps_add_dbus_interface)

subsection \<open>Dependency order\<close>

lemma closed_refl: "reflp closed_step"
  by (rule reflpI) (simp add: closed_step_def)

lemma closed_trans: "transp closed_step"
  by (rule transpI) (simp add: closed_step_def)

lemmas closed_bindE = preserves_bindE [of closed_step, OF closed_refl closed_trans]

lemma closed_lib:
  "preserves closed_step (lib_new L c)" "preserves closed_step (lib_call L h name args)"
  by (simp_all add: preserves_def closed_step_def all_closed_def lib_new_def lib_call_def
      split: sum.splits)

lemma closed_guarded:
  assumes "\<And>d h. closed d \<Longrightarrow> field d = None \<Longrightarrow> pre d \<noteq> None \<Longrightarrow> closed (upd h d)"
  shows "preserves closed_step
    (bindE (absent self field) (\<lambda>missing.
       if missing then
         bindE (slot self key pre) (\<lambda>b.
         bindE (lib_new L (c b)) (\<lambda>h. store self (upd h)))
       else ret ()))"
  using assms
  by (auto simp: preserves_def closed_step_def all_closed_def prims
      split: option.splits sum.splits)

lemma closed_add_systemd: "preserves closed_step (add_systemd L self)"
  unfolding add_systemd_def by (rule closed_guarded) (auto simp: closed_def)

lemma closed_add_dbus: "preserves closed_step (add_dbus L self)"
  unfolding add_dbus_def by (rule closed_guarded) (auto simp: closed_def)

lemma closed_add_systemd_manager: "preserves closed_step (add_systemd_manager L self)"
  unfolding add_systemd_manager_def
  by (rule closed_bindE, rule closed_add_systemd, rule closed_guarded) (auto simp: closed_def)

lemma closed_add_systemd_properties: "preserves closed_step (add_systemd_properties L self)"
  unfolding add_systemd_properties_def
  by (rule closed_bindE, rule closed_add_systemd, rule closed_guarded) (auto simp: closed_def)

lemma closed_add_dbus_interface: "preserves closed_step (add_dbus_interface L self)"
  unfolding add_dbus_interface_def
  by (rule closed_bindE, rule closed_add_dbus, rule closed_guarded) (auto simp: closed_def)

lemma closed_unit_tail:
  "preserves closed_step
     (bindE (slot self ''systemd_manager'' systemd_manager) (\<lambda>manager.
      bindE (lib_call L manager ''GetUnit'' [PyStr unit_id]) (\<lambda>path.
      bindE (lib_new L (Get_object b ''org.freedesktop.systemd1'' path)) (\<lambda>unit_path.
      bindE (absent self unit_properties) (\<lambda>missing.
      bindE (if missing then store self (\<lambda>d. d\<lparr>unit_properties := Some []\<rparr>) else ret ()) (\<lambda>_.
      bindE (slot self ''unit_properties'' unit_properties) (\<lambda>units.
        if map_of units unit_id = None then
          bindE (lib_new L (Interface unit_path ''org.freedesktop.DBus.Properties'')) (\<lambda>iface.
          store_unit self unit_id iface)
        else ret ())))))))"
  by (auto simp: preserves_def closed_step_def all_closed_def prims
      split: option.splits sum.splits) (auto simp: closed_def)

lemma closed_add_systemd_unit_properties:
  "preserves closed_step (add_systemd_unit_properties L self unit_id)"
  unfolding add_systemd_unit_properties_def
  by (rule closed_bindE, rule closed_add_systemd_manager, rule closed_bindE,
      rule preserves_unchanged [of closed_step, OF closed_refl], rule closed_unit_tail)

lemma closed_DbusInteractions: "preserves closed_step (DbusInteractions L level)"
  by (auto simp: DbusInteractions_def Let_def preserves_def closed_step_def all_closed_def
      prims split: option.splits sum.splits) (auto simp: closed_def)

lemma closed_perform: "preserves closed_step (perform L self op)"
  by (intro preserves_perform closed_refl closed_trans closed_lib closed_add_systemd
      closed_add_systemd_manager closed_add_systemd_properties
      closed_add_systemd_unit_properties closed_add_dbus closed_add_dbus_interface)

subsection \<open>One wrapper per unit id\<close>

lemma sound_refl: "reflp sound_step"
  by (rule reflpI) (simp add: sound_step_def)

lemma sound_trans: "transp sound_step"
  by (rule transpI) (simp add: sound_step_def)

lemmas sound_bindE = preserves_bindE [of sound_step, OF sound_refl sound_trans]

lemma sound_lib:
  "preserves sound_step (lib_new L c)" "preserves sound_step (lib_call L h name args)"
  by (auto simp: preserves_def sound_step_def sound_def lib_new_def lib_call_def
      less_Suc_eq split: sum.splits)

lemma sound_guarded:
  assumes "\<And>d h. unit_properties (upd h d) = unit_properties d"
  shows "preserves sound_step
    (bindE (absent self field) (\<lambda>missing.
       if missing then
         bindE (slot self key pre) (\<lambda>b.
         bindE (lib_new L (c b)) (\<lambda>h. store self (upd h)))
       else ret ()))"
  using assms
  by (auto simp: preserves_def sound_step_def sound_def prims less_Suc_eq
      split: option.splits sum.splits)

lemma sound_add_systemd: "preserves sound_step (add_systemd L self)"
  unfolding add_systemd_def by (rule sound_guarded) simp

lemma sound_add_dbus: "preserves sound_step (add_dbus L self)"
  unfolding add_dbus_def by (rule sound_guarded) simp

lemma sound_add_systemd_manager: "preserves sound_step (add_systemd_manager L self)"
  unfolding add_systemd_manager_def
  by (rule sound_bindE, rule sound_add_systemd, rule sound_guarded) simp

lemma sound_add_systemd_properties: "preserves sound_step (add_systemd_properties L self)"
  unfolding add_systemd_properties_def
  by (rule sound_bindE, rule sound_add_systemd, rule sound_guarded) simp

lemma sound_add_dbus_interface: "preserves sound_step (add_dbus_interface L self)"
  unfolding add_dbus_interface_def
  by (rule sound_bindE, rule sound_add_dbus, rule sound_guarded) simp

lemma sound_unit_tail:
  "preserves sound_step
     (bindE (absent self unit_properties) (\<lambda>missing.
      bindE (if missing then store self (\<lambda>d. d\<lparr>unit_properties := Some []\<rparr>) else ret ()) (\<lambda>_.
      bindE (slot self ''unit_properties'' unit_properties) (\<lambda>units.
        if map_of units unit_id = None then
          bindE (lib_new L (Interface unit_path ''org.freedesktop.DBus.Properties'')) (\<lambda>iface.
          store_unit self unit_id iface)
        else ret ()))))"
  by (auto simp: preserves_def sound_step_def sound_def prims update_fresh less_Suc_eq
      map_of_eq_None_iff split: option.splits sum.splits) force

lemmas sound_steps = sound_bindE preserves_unchanged [of sound_step, OF sound_refl] sound_lib

lemma sound_add_systemd_unit_properties:
  "preserves sound_step (add_systemd_unit_properties L self unit_id)"
  unfolding add_systemd_unit_properties_def
  by (intro sound_steps sound_add_systemd_manager sound_unit_tail)

lemma sound_DbusInteractions: "preserves sound_step (DbusInteractions L level)"
  by (auto simp: DbusInteractions_def Let_def preserves_def sound_step_def sound_def
      prims less_Suc_eq split: option.splits sum.splits)

lemma sound_perform: "preserves sound_step (perform L self op)"
  by (intro preserves_perform sound_refl sound_trans sound_lib sound_add_systemd
      sound_add_systemd_manager sound_add_systemd_properties
      sound_add_systemd_unit_properties sound_add_dbus sound_add_dbus_interface)

subsection \<open>What a successful accessor leaves\<close>


lemma bindE_success:
  assumes "bindE m k s = (Inr y, s')"
  obtains x s1 where "m s = (Inr x, s1)" "k x s1 = (Inr y, s')"
  using assms by (auto simp: bindE_def split: prod.splits sum.splits)

lemma ensures_bindE: "(\<And>x. ensures Q (k x)) \<Longrightarrow> ensures Q (bindE m k)"
  unfolding ensures_def by (metis bindE_success)

lemma ensures_guarded:
  assumes "\<And>d h. field (upd h d) \<noteq> None"
  shows "ensures (\<lambda>s. cached s (dbus_level self) field \<noteq> None)
    (bindE (absent self field) (\<lambda>missing.
       if missing then
         bindE (slot self key pre) (\<lambda>b.
         bindE (lib_new L (c b)) (\<lambda>h. store self (upd h)))
       else ret ()))"
  using assms
  by (auto simp: ensures_def cached_def prims split: option.splits sum.splits if_splits)

lemma ensures_add_systemd_manager:
  "ensures (\<lambda>s. cached s (dbus_level self) systemd_manager \<noteq> None) (add_systemd_manager L self)"
  unfolding add_systemd_manager_def by (rule ensures_bindE, rule ensures_guarded) simp

lemma ensures_add_systemd_properties:
  "ensures (\<lambda>s. cached s (dbus_level self) systemd_properties \<noteq> None)
     (add_systemd_properties L self)"
  unfolding add_systemd_properties_def by (rule ensures_bindE, rule ensures_guarded) simp

lemma ensures_unit_tail:
  "ensures (\<lambda>s. unit_wrapper s (dbus_level self) unit_id \<noteq> None)
     (bindE (absent self unit_properties) (\<lambda>missing.
      bindE (if missing then store self (\<lambda>d. d\<lparr>unit_properties := Some []\<rparr>) else ret ()) (\<lambda>_.
      bindE (slot self ''unit_properties'' unit_properties) (\<lambda>units.
        if map_of units unit_id = None then
          bindE (lib_new L (Interface unit_path ''org.freedesktop.DBus.Properties'')) (\<lambda>iface.
          store_unit self unit_id iface)
        else ret ()))))"
  by (auto simp: ensures_def unit_wrapper_def prims update_conv'
      split: option.splits sum.splits if_splits)

lemma ensures_add_systemd_unit_properties:
  "ensures (\<lambda>s. unit_wrapper s (dbus_level self) unit_id \<noteq> None)
     (add_systemd_unit_properties L self unit_id)"
  unfolding add_systemd_unit_properties_def
  by (intro ensures_bindE ensures_unit_tail)

subsection \<open>Accessors that make no remote call\<close>


lemma remote_calls_append: "remote_calls (es @ es') = remote_calls es @ remote_calls es'"
  by (simp add: remote_calls_def)

lemma quiet_refl: "reflp quiet"
  by (rule reflpI) (simp add: quiet_def remote_calls_def)

lemma quiet_trans: "transp quiet"
proof (rule transpI)
  fix a b c
  assume "quiet a b" "quiet b c"
  then obtain es es' where "calls b = calls a @ es" "remote_calls es = []"
    "calls c = calls b @ es'" "remote_calls es' = []"
    unfolding quiet_def by blast
  then have "calls c = calls a @ (es @ es')" "remote_calls (es @ es') = []"
    by (simp_all add: remote_calls_append)
  then show "quiet a c" unfolding quiet_def by blast
qed

lemmas quiet_bindE = preserves_bindE [of quiet, OF quiet_refl quiet_trans]

lemma quiet_lib_new: "\<not> is_method c \<Longrightarrow> preserves quiet (lib_new L c)"
  by (simp add: preserves_def quiet_def remote_calls_def lib_new_def split: sum.splits)

lemma quiet_store: "preserves quiet (store self upd)"
  by (simp add: preserves_def quiet_def remote_calls_def store_def split: option.splits)

lemmas quiet_steps = quiet_bindE preserves_unchanged [of quiet, OF quiet_refl] quiet_lib_new
  quiet_store preserves_if

lemma quiet_add_systemd: "preserves quiet (add_systemd L self)"
  unfolding add_systemd_def by (intro quiet_steps) simp

lemma quiet_add_systemd_manager: "preserves quiet (add_systemd_manager L self)"
  unfolding add_systemd_manager_def by (intro quiet_steps quiet_add_systemd) simp

lemma issued_append: "calls s' = calls s @ es \<Longrightarrow> issued s s' = es"
  by (simp add: issued_def)

text \<open>A method of the manager interface, after the accessor has succeeded.\<close>

lemma manager_method:
  assumes ok: "fst (add_systemd_manager L self s) = Inr ()"
  obtains manager where
    "cached (snd (add_systemd_manager L self s)) (dbus_level self) systemd_manager = Some manager"
    "bindE (add_systemd_manager L self) (\<lambda>_.
       bindE (slot self ''systemd_manager'' systemd_manager) (\<lambda>m. lib_call L m name (args m))) s
     = lib_call L manager name (args manager) (snd (add_systemd_manager L self s))"
    "bindE (add_systemd_manager L self) (\<lambda>_.
       bindE (slot self ''systemd_manager'' systemd_manager) (\<lambda>m.
       bindE (lib_call L m name (args m)) k)) s
     = bindE (lib_call L manager name (args manager)) k (snd (add_systemd_manager L self s))"
    "remote_calls (issued s (snd (lib_call L manager name (args manager)
        (snd (add_systemd_manager L self s))))) = [Method manager name (args manager)]"
proof -
  define s1 where "s1 = snd (add_systemd_manager L self s)"
  have run: "add_systemd_manager L self s = (Inr (), s1)"
    using ok unfolding s1_def by (metis prod.collapse)
  from ensures_add_systemd_manager [of self L] run
  obtain manager where m: "cached s1 (dbus_level self) systemd_manager = Some manager"
    unfolding ensures_def by blast
  have sl: "slot self ''systemd_manager'' systemd_manager s1 = (Inr manager, s1)"
    using m by (auto simp: cached_def prims split: option.splits)
  have 2: "bindE (add_systemd_manager L self) (\<lambda>_.
       bindE (slot self ''systemd_manager'' systemd_manager) (\<lambda>m. lib_call L m name (args m))) s
     = lib_call L manager name (args manager) s1"
    by (simp add: bindE_def run sl)
  from quiet_add_systemd_manager [of L self] run
  obtain es where es: "calls s1 = calls s @ es" "remote_calls es = []"
    unfolding preserves_def quiet_def by (metis snd_conv)
  have "calls (snd (lib_call L manager name (args manager) s1))
      = calls s @ es @ [(Method manager name (args manager),
          case L (calls s1) (Method manager name (args manager)) of
            Inl f \<Rightarrow> Some f | Inr v \<Rightarrow> None)]"
    using es by (simp add: lib_call_def split: sum.splits)
  then have 3: "remote_calls (issued s (snd (lib_call L manager name (args manager) s1)))
      = [Method manager name (args manager)]"
    using es by (simp add: issued_append remote_calls_append) (simp add: remote_calls_def)
  have withk: "bindE (add_systemd_manager L self) (\<lambda>_.
       bindE (slot self ''systemd_manager'' systemd_manager) (\<lambda>m.
       bindE (lib_call L m name (args m)) k)) s
     = bindE (lib_call L manager name (args manager)) k s1"
    by (simp add: bindE_def run sl)
  show thesis using that [of manager] m 2 withk 3 unfolding s1_def by simp
qed

lemma snd_bindE_ret: "snd (bindE m (\<lambda>_. ret x) s) = snd (m s)"
  by (simp add: bindE_def ret_def split: prod.splits sum.splits)

lemma fst_lib_call:
  "fst (lib_call L h name args s) =
     (case L (calls s) (Method h name args) of Inl f \<Rightarrow> Inl (DBusException f) | Inr v \<Rightarrow> Inr v)"
  by (simp add: lib_call_def split: sum.splits)

lemma fault_is_outcome:
  assumes p: "passes_faults m" and f: "(c, Some f) \<in> set (issued s (snd (m s)))"
  shows "fst (m s) = Inl (DBusException f) \<and> last (issued s (snd (m s))) = (c, Some f) \<and>
    clean (butlast (issued s (snd (m s)))) \<and> calls (snd (m s)) = calls s @ issued s (snd (m s))"
proof -
  from p obtain es where es: "calls (snd (m s)) = calls s @ es"
    and c: "clean es \<or>
      (\<exists>es0 c' f'. es = es0 @ [(c', Some f')] \<and> clean es0 \<and> fst (m s) = Inl (DBusException f'))"
    unfolding passes_faults_def by blast
  have i: "issued s (snd (m s)) = es" using es by (rule issued_append)
  have "\<not> clean es" using f i by (force simp: clean_def list_all_iff)
  with c obtain es0 c' f' where e: "es = es0 @ [(c', Some f')]" "clean es0"
    "fst (m s) = Inl (DBusException f')" by blast
  have "(c, Some f) \<notin> set es0" using e(2) by (force simp: clean_def list_all_iff)
  then have "(c, Some f) = (c', Some f')" using f i e(1) by auto
  then show ?thesis using e i es by simp
qed

subsection \<open>Parsing the environment\<close>

lemma split1_first:
  assumes "CHR ''='' \<notin> set var"
  shows "split1 CHR ''='' (var @ ''='' @ val) = [var, val]"
proof -
  have "takeWhile (\<lambda>c. c \<noteq> CHR ''='') (var @ CHR ''='' # val) = var"
    using assms by (simp add: takeWhile_append)
  moreover have "dropWhile (\<lambda>c. c \<noteq> CHR ''='') (var @ CHR ''='' # val) = CHR ''='' # val"
    using assms by (simp add: dropWhile_append)
  ultimately show ?thesis by (simp add: split1_def)
qed

lemma env_loop_assignments:
  "\<forall>p \<in> set ps. CHR ''='' \<notin> set (fst p) \<Longrightarrow>
   env_loop (assignments_of ps) env = Inr (foldl (\<lambda>e (var, val). AList.update var val e) env ps)"
proof (induction ps arbitrary: env)
  case Nil
  then show ?case by (simp add: assignments_of_def)
next
  case (Cons p ps)
  obtain var val where p: "p = (var, val)" by (cases p)
  have "split1 CHR ''='' (var @ ''='' @ val) = [var, val]"
    by (rule split1_first) (use Cons.prems p in simp)
  moreover have "env_loop (assignments_of ps) (AList.update var val env) =
      Inr (foldl (\<lambda>e (var, val). AList.update var val e) (AList.update var val env) ps)"
    by (rule Cons.IH) (use Cons.prems in simp)
  ultimately show ?case using p by (simp add: assignments_of_def)
qed

lemma map_of_foldl_update:
  "map_of (foldl (\<lambda>e (var, val). AList.update var val e) env ps) = map_of (rev ps @ env)"
proof (induction ps arbitrary: env)
  case Nil
  then show ?case by simp
next
  case (Cons p ps)
  obtain var val where p: "p = (var, val)" by (cases p)
  show ?case
    using Cons.IH [of "AList.update var val env"] p
    by (simp add: update_conv' map_add_def fun_eq_iff split: option.splits)
qed

lemma distinct_foldl_update:
  "distinct (map fst env) \<Longrightarrow>
   distinct (map fst (foldl (\<lambda>e (var, val). AList.update var val e) env ps))"
  by (induction ps arbitrary: env) (auto simp: distinct_update)

lemma env_loop_returns:
  "(\<exists>env'. env_loop xs env = Inr env') \<longleftrightarrow> (\<forall>x \<in> set xs. CHR ''='' \<in> set x)"
  by (induction xs arbitrary: env) (auto simp: split1_def)

lemma env_loop_raises:
  "\<exists>x \<in> set xs. CHR ''='' \<notin> set x \<Longrightarrow>
   env_loop xs env = Inl (ValueError ''not enough values to unpack (expected 2, got 1)'')"
  by (induction xs arbitrary: env) (auto simp: split1_def)

lemma get_systemd_vars_reply:
  assumes ok: "fst (add_systemd_properties L self s) = Inr ()"
    and props: "cached (snd (add_systemd_properties L self s)) (dbus_level self)
       systemd_properties = Some props"
    and reply: "L (calls (snd (add_systemd_properties L self s)))
       (Method props ''Get'' [PyStr ''org.freedesktop.systemd1.Manager'', PyStr ''Environment''])
       = Inr (PyList assignments)"
  shows "fst (get_systemd_vars L self s) = env_loop assignments []"
proof -
  define s1 where "s1 = snd (add_systemd_properties L self s)"
  have run: "add_systemd_properties L self s = (Inr (), s1)"
    using ok unfolding s1_def by (metis prod.collapse)
  have sl: "slot self ''systemd_properties'' systemd_properties s1 = (Inr props, s1)"
    using props unfolding s1_def by (auto simp: cached_def prims split: option.splits)
  have call: "lib_call L props ''Get''
       [PyStr ''org.freedesktop.systemd1.Manager'', PyStr ''Environment''] s1 =
     (Inr (PyList assignments), s1\<lparr>calls := calls s1 @ [(Method props ''Get''
       [PyStr ''org.freedesktop.systemd1.Manager'', PyStr ''Environment''], None)]\<rparr>)"
    using reply unfolding s1_def by (simp add: lib_call_def)
  show ?thesis
    unfolding get_systemd_vars_def
    by (simp add: bindE_def run sl call lift_def ret_def throw_def split: sum.splits)
qed

subsection \<open>Construction\<close>

lemma init_invalid:
  "level \<notin> set [''system'', ''session''] \<Longrightarrow>
   DbusInteractions L level s =
     (Inl (ValueError (''dbus_level can be '' @ quoted ''system'' @ '' or ''
        @ quoted ''session'' @ '', got '' @ quoted level)), s)"
  by (simp add: DbusInteractions_def throw_def)

lemma init_cached:
  "level \<in> set [''system'', ''session''] \<Longrightarrow> cached s level bus \<noteq> None \<Longrightarrow>
   DbusInteractions L level s = (Inr \<lparr>dbus_level = level\<rparr>, s)"
  by (auto simp: DbusInteractions_def Let_def cached_def prims split: option.splits)

lemma init_outcome:
  "level \<in> set [''system'', ''session''] \<Longrightarrow> dbus_objects s level \<noteq> None \<Longrightarrow>
   fst (DbusInteractions L level s) =
     (if cached s level bus = None then
        (case L (calls s) (connect_call level) of
           Inl f \<Rightarrow> Inl (DBusException f)
         | Inr v \<Rightarrow> Inr \<lparr>dbus_level = level\<rparr>)
      else Inr \<lparr>dbus_level = level\<rparr>)"
  by (auto simp: DbusInteractions_def Let_def cached_def connect_call_def prims
      split: option.splits sum.splits)

lemma init_fresh:
  "level \<in> set [''system'', ''session''] \<Longrightarrow> cached s level bus = None \<Longrightarrow>
   DbusInteractions L level s = (Inr x, s') \<Longrightarrow>
   calls s' = calls s @ [(connect_call level, None)] \<and> cached s' level bus = Some (next_handle s)"
  by (auto simp: DbusInteractions_def Let_def cached_def connect_call_def prims
      split: option.splits sum.splits if_splits)

lemma repeat_cached:
  "level \<in> set [''system'', ''session''] \<Longrightarrow> cached s level bus \<noteq> None \<Longrightarrow>
   repeat n (DbusInteractions L level) s = (Inr (), s)"
  by (induction n) (simp_all add: ret_def bindE_def init_cached)

lemma repeat_fresh:
  assumes level: "level \<in> set [''system'', ''session'']"
    and fresh: "cached s level bus = None"
    and n: "0 < n"
    and ok: "fst (repeat n (DbusInteractions L level) s) = Inr ()"
  shows "calls (snd (repeat n (DbusInteractions L level) s))
      = calls s @ [(connect_call level, None)] \<and>
    cached (snd (repeat n (DbusInteractions L level) s)) level bus = Some (next_handle s)"
proof -
  obtain k where k: "n = Suc k" using n by (cases n) auto
  obtain r s1 where first: "DbusInteractions L level s = (r, s1)"
    by (cases "DbusInteractions L level s")
  show ?thesis
  proof (cases r)
    case (Inl e)
    then show ?thesis using ok first k by (simp add: bindE_def)
  next
    case (Inr x)
    from init_fresh [OF level fresh] first Inr
    have 1: "calls s1 = calls s @ [(connect_call level, None)]"
      "cached s1 level bus = Some (next_handle s)" by auto
    have "repeat k (DbusInteractions L level) s1 = (Inr (), s1)"
      using level 1(2) by (intro repeat_cached) simp_all
    then have "repeat n (DbusInteractions L level) s = (Inr (), s1)"
      using first Inr k by (simp add: bindE_def)
    then show ?thesis using 1 by simp
  qed
qed

lemma cached_kept:
  assumes "keeps s s'" and "cached s l bus = Some b"
  shows "cached s' l bus = Some b"
proof -
  from assms(2) obtain d where d: "dbus_objects s l = Some d" "bus d = Some b"
    by (auto simp: cached_def split: option.splits)
  with assms(1) obtain d' where "dbus_objects s' l = Some d'" "extends d d'"
    unfolding keeps_def by blast
  then show ?thesis using d by (simp add: cached_def extends_def)
qed

subsection \<open>The first access to a unit\<close>

lemma unit_access_order:
  assumes fresh: "dbus_objects s (dbus_level self) = Some (empty_slots\<lparr>bus := Some b\<rparr>)"
    and ok: "fst (add_systemd_unit_properties L self unit_id s) = Inr ()"
  shows "\<exists>path. map fst (issued s (snd (add_systemd_unit_properties L self unit_id s))) =
    [Get_object b ''org.freedesktop.systemd1'' (PyStr ''/org/freedesktop/systemd1''),
     Interface (next_handle s) ''org.freedesktop.systemd1.Manager'',
     Method (Suc (next_handle s)) ''GetUnit'' [PyStr unit_id],
     Get_object b ''org.freedesktop.systemd1'' path,
     Interface (Suc (Suc (next_handle s))) ''org.freedesktop.DBus.Properties'']"
  using fresh ok
  by (auto simp: add_systemd_unit_properties_def add_systemd_manager_def add_systemd_def
      empty_slots_def issued_def prims split: sum.splits)

lemma closed_initial: "all_closed initial_state"
  by (simp add: all_closed_def closed_def initial_state_def empty_slots_def)

subsection \<open>Unit wrappers\<close>

lemma wrapper_kept:
  assumes "keeps s s'" and "unit_wrapper s l u = Some w"
  shows "unit_wrapper s' l u = Some w"
proof -
  from assms(2) obtain d us where d: "dbus_objects s l = Some d" "unit_properties d = Some us"
    "map_of us u = Some w"
    by (auto simp: unit_wrapper_def split: option.splits)
  with assms(1) obtain d' where d': "dbus_objects s' l = Some d'" "extends d d'"
    unfolding keeps_def by blast
  with d obtain us' where "unit_properties d' = Some us'" "map_of us' u = map_of us u"
    unfolding extends_def by fastforce
  then show ?thesis using d d' by (simp add: unit_wrapper_def)
qed

lemma sound_distinct:
  assumes "sound s" and "u1 \<noteq> u2"
    and "unit_wrapper s l u1 = Some w1" and "unit_wrapper s l u2 = Some w2"
  shows "w1 \<noteq> w2"
proof
  assume eq: "w1 = w2"
  from assms(3) obtain d us where d: "dbus_objects s l = Some d" "unit_properties d = Some us"
    "map_of us u1 = Some w1"
    by (auto simp: unit_wrapper_def split: option.splits)
  with assms(4) have 2: "map_of us u2 = Some w2"
    by (simp add: unit_wrapper_def)
  have "distinct (map snd us)" using assms(1) d unfolding sound_def by blast
  then have "inj_on snd (set us)" by (simp add: distinct_map)
  moreover have "(u1, w1) \<in> set us" "(u2, w2) \<in> set us"
    using d(3) 2 by (auto dest: map_of_SomeD)
  ultimately have "(u1, w1) = (u2, w2)" using eq by (intro inj_onD [of snd "set us"]) simp_all
  then show False using assms(2) by simp
qed

lemma sound_initial: "sound initial_state"
  by (simp add: sound_def initial_state_def empty_slots_def)

lemma get_unit_property_wrapper:
  assumes ok: "fst (add_systemd_unit_properties L self unit_id s) = Inr ()"
  shows "\<exists>w. unit_wrapper (snd (add_systemd_unit_properties L self unit_id s))
        (dbus_level self) unit_id = Some w \<and>
      get_unit_property L self unit_id unit_property s =
        lib_call L w ''Get'' [PyStr ''org.freedesktop.systemd1.Unit'', PyStr unit_property]
          (snd (add_systemd_unit_properties L self unit_id s))"
proof -
  define s1 where "s1 = snd (add_systemd_unit_properties L self unit_id s)"
  have run: "add_systemd_unit_properties L self unit_id s = (Inr (), s1)"
    using ok unfolding s1_def by (metis prod.collapse)
  from ensures_add_systemd_unit_properties [of self unit_id L] run
  obtain w where w: "unit_wrapper s1 (dbus_level self) unit_id = Some w"
    unfolding ensures_def by blast
  then obtain d us where d: "dbus_objects s1 (dbus_level self) = Some d"
    "unit_properties d = Some us" "map_of us unit_id = Some w"
    by (auto simp: unit_wrapper_def split: option.splits)
  have sl: "slot self ''unit_properties'' unit_properties s1 = (Inr us, s1)"
    using d by (simp add: prims)
  have it: "item unit_id (map_of us unit_id) s1 = (Inr w, s1)"
    using d by (simp add: item_def ret_def)
  have "get_unit_property L self unit_id unit_property s =
      lib_call L w ''Get'' [PyStr ''org.freedesktop.systemd1.Unit'', PyStr unit_property] s1"
    unfolding get_unit_property_def by (simp add: bindE_def run sl it)
  then show ?thesis using w unfolding s1_def by blast
qed

subsection \<open>Prerequisites of the accessors\<close>

lemma ensures_after:
  assumes "ensures P m" and "\<And>x s y s'. P s \<Longrightarrow> k x s = (Inr y, s') \<Longrightarrow> Q s'"
  shows "ensures Q (bindE m k)"
  unfolding ensures_def
proof (intro allI impI)
  fix s y s'
  assume "bindE m k s = (Inr y, s')"
  then obtain x s1 where "m s = (Inr x, s1)" "k x s1 = (Inr y, s')"
    by (rule bindE_success)
  then show "Q s'" using assms unfolding ensures_def by blast
qed

lemma ensures_add_systemd:
  "ensures (\<lambda>s. cached s (dbus_level self) systemd \<noteq> None) (add_systemd L self)"
  unfolding add_systemd_def by (rule ensures_guarded) simp

lemma ensures_add_dbus:
  "ensures (\<lambda>s. cached s (dbus_level self) dbus \<noteq> None) (add_dbus L self)"
  unfolding add_dbus_def by (rule ensures_guarded) simp

lemma ensures_DbusInteractions:
  "ensures (\<lambda>s. cached s level bus \<noteq> None) (DbusInteractions L level)"
  by (auto simp: ensures_def DbusInteractions_def Let_def cached_def prims
      split: option.splits sum.splits if_splits)

lemma guarded_keeps_prerequisite:
  assumes "\<And>d h. pre (upd h d) = pre d" "\<And>d h. field (upd h d) \<noteq> None"
    and "cached s (dbus_level self) pre \<noteq> None"
    and "bindE (absent self field) (\<lambda>missing.
       if missing then
         bindE (slot self key pre) (\<lambda>b.
         bindE (lib_new L (c b)) (\<lambda>h. store self (upd h)))
       else ret ()) s = (Inr y, s')"
  shows "cached s' (dbus_level self) pre \<noteq> None \<and> cached s' (dbus_level self) field \<noteq> None"
  using assms
  by (auto simp: cached_def prims split: option.splits sum.splits if_splits)

lemma ensures_manager_chain:
  "ensures (\<lambda>s. cached s (dbus_level self) systemd \<noteq> None \<and>
      cached s (dbus_level self) systemd_manager \<noteq> None) (add_systemd_manager L self)"
  unfolding add_systemd_manager_def
  by (rule ensures_after [OF ensures_add_systemd], rule guarded_keeps_prerequisite) simp_all

lemma ensures_properties_chain:
  "ensures (\<lambda>s. cached s (dbus_level self) systemd \<noteq> None \<and>
      cached s (dbus_level self) systemd_properties \<noteq> None) (add_systemd_properties L self)"
  unfolding add_systemd_properties_def
  by (rule ensures_after [OF ensures_add_systemd], rule guarded_keeps_prerequisite) simp_all

lemma ensures_dbus_chain:
  "ensures (\<lambda>s. cached s (dbus_level self) dbus \<noteq> None \<and>
      cached s (dbus_level self) dbus_interface \<noteq> None) (add_dbus_interface L self)"
  unfolding add_dbus_interface_def
  by (rule ensures_after [OF ensures_add_dbus], rule guarded_keeps_prerequisite) simp_all

lemma unit_rest_keeps_prerequisites:
  assumes "cached s (dbus_level self) systemd \<noteq> None \<and>
      cached s (dbus_level self) systemd_manager \<noteq> None"
    and "bindE (slot self ''bus'' bus) (\<lambda>b.
     bindE (slot self ''systemd_manager'' systemd_manager) (\<lambda>manager.
     bindE (lib_call L manager ''GetUnit'' [PyStr unit_id]) (\<lambda>path.
     bindE (lib_new L (Get_object b ''org.freedesktop.systemd1'' path)) (\<lambda>unit_path.
     bindE (absent self unit_properties) (\<lambda>missing.
     bindE (if missing then store self (\<lambda>d. d\<lparr>unit_properties := Some []\<rparr>) else ret ()) (\<lambda>_.
     bindE (slot self ''unit_properties'' unit_properties) (\<lambda>units.
       if map_of units unit_id = None then
         bindE (lib_new L (Interface unit_path ''org.freedesktop.DBus.Properties'')) (\<lambda>iface.
         store_unit self unit_id iface)
       else ret ()))))))) s = (Inr y, s')"
  shows "cached s' (dbus_level self) bus \<noteq> None \<and>
      cached s' (dbus_level self) systemd \<noteq> None \<and>
      cached s' (dbus_level self) systemd_manager \<noteq> None \<and>
      unit_wrapper s' (dbus_level self) unit_id \<noteq> None"
  using assms
  by (auto simp: cached_def unit_wrapper_def prims update_conv'
      split: option.splits sum.splits if_splits)

lemma ensures_unit_chain:
  "ensures (\<lambda>s. cached s (dbus_level self) bus \<noteq> None \<and>
      cached s (dbus_level self) systemd \<noteq> None \<and>
      cached s (dbus_level self) systemd_manager \<noteq> None \<and>
      unit_wrapper s (dbus_level self) unit_id \<noteq> None)
     (add_systemd_unit_properties L self unit_id)"
  unfolding add_systemd_unit_properties_def
  by (rule ensures_after [OF ensures_manager_chain], rule unit_rest_keeps_prerequisites)

lemma ensuresD: "ensures Q m \<Longrightarrow> fst (m s) = Inr x \<Longrightarrow> Q (snd (m s))"
  unfolding ensures_def by (metis prod.collapse)

subsection \<open>The accessors on a cache that holds only the connection\<close>

lemma answers_no_fault: "answers L \<Longrightarrow> L history c \<noteq> Inl f"
  unfolding answers_def by (metis sum.distinct(1))

lemma fresh_add_systemd:
  assumes "dbus_objects s (dbus_level self) = Some (empty_slots\<lparr>bus := Some b\<rparr>)"
    and "answers L"
  shows "fst (add_systemd L self s) = Inr () \<and>
    map fst (issued s (snd (add_systemd L self s))) =
      [Get_object b ''org.freedesktop.systemd1'' (PyStr ''/org/freedesktop/systemd1'')]"
  using assms(1) answers_no_fault [OF assms(2)]
  by (auto simp: add_systemd_def empty_slots_def issued_def prims split: sum.splits)

lemma fresh_add_systemd_manager:
  assumes "dbus_objects s (dbus_level self) = Some (empty_slots\<lparr>bus := Some b\<rparr>)"
    and "answers L"
  shows "fst (add_systemd_manager L self s) = Inr () \<and>
    map fst (issued s (snd (add_systemd_manager L self s))) =
      [Get_object b ''org.freedesktop.systemd1'' (PyStr ''/org/freedesktop/systemd1''),
       Interface (next_handle s) ''org.freedesktop.systemd1.Manager'']"
  using assms(1) answers_no_fault [OF assms(2)]
  by (auto simp: add_systemd_manager_def add_systemd_def empty_slots_def issued_def prims
      split: sum.splits)

lemma fresh_add_systemd_properties:
  assumes "dbus_objects s (dbus_level self) = Some (empty_slots\<lparr>bus := Some b\<rparr>)"
    and "answers L"
  shows "fst (add_systemd_properties L self s) = Inr () \<and>
    map fst (issued s (snd (add_systemd_properties L self s))) =
      [Get_object b ''org.freedesktop.systemd1'' (PyStr ''/org/freedesktop/systemd1''),
       Interface (next_handle s) ''org.freedesktop.DBus.Properties'']"
  using assms(1) answers_no_fault [OF assms(2)]
  by (auto simp: add_systemd_properties_def add_systemd_def empty_slots_def issued_def prims
      split: sum.splits)

lemma fresh_add_dbus:
  assumes "dbus_objects s (dbus_level self) = Some (empty_slots\<lparr>bus := Some b\<rparr>)"
    and "answers L"
  shows "fst (add_dbus L self s) = Inr () \<and>
    map fst (issued s (snd (add_dbus L self s))) =
      [Get_object b ''org.freedesktop.DBus'' (PyStr ''/org/freedesktop/DBus'')]"
  using assms(1) answers_no_fault [OF assms(2)]
  by (auto simp: add_dbus_def empty_slots_def issued_def prims split: sum.splits)

lemma fresh_add_dbus_interface:
  assumes "dbus_objects s (dbus_level self) = Some (empty_slots\<lparr>bus := Some b\<rparr>)"
    and "answers L"
  shows "fst (add_dbus_interface L self s) = Inr () \<and>
    map fst (issued s (snd (add_dbus_interface L self s))) =
      [Get_object b ''org.freedesktop.DBus'' (PyStr ''/org/freedesktop/DBus''),
       Interface (next_handle s) ''org.freedesktop.DBus'']"
  using assms(1) answers_no_fault [OF assms(2)]
  by (auto simp: add_dbus_interface_def add_dbus_def empty_slots_def issued_def prims
      split: sum.splits)

lemma fresh_add_systemd_unit_properties:
  assumes "dbus_objects s (dbus_level self) = Some (empty_slots\<lparr>bus := Some b\<rparr>)"
    and "answers L"
  shows "fst (add_systemd_unit_properties L self unit_id s) = Inr ()"
  using assms(1) answers_no_fault [OF assms(2)]
  by (auto simp: add_systemd_unit_properties_def add_systemd_manager_def add_systemd_def
      empty_slots_def prims split: sum.splits)

lemma fresh_DbusInteractions:
  assumes "level \<in> set [''system'', ''session'']"
    and "dbus_objects s level = Some empty_slots" and "answers L"
  shows "fst (DbusInteractions L level s) = Inr \<lparr>dbus_level = level\<rparr> \<and>
    map fst (issued s (snd (DbusInteractions L level s))) = [connect_call level] \<and>
    dbus_objects (snd (DbusInteractions L level s)) level
      = Some (empty_slots\<lparr>bus := Some (next_handle s)\<rparr>)"
  using assms(1,2) answers_no_fault [OF assms(3)]
  by (auto simp: DbusInteractions_def Let_def connect_call_def empty_slots_def issued_def prims
      split: sum.splits)

section \<open>The ensure accessors called again\<close>

text \<open>
  Five accessors test their slot before they touch the library: with the slot (and
  the slot of the accessor they call first) cached, they return and leave the state
  as it is.
\<close>

lemma cached_siblings_return:
  "cached s (dbus_level self) systemd \<noteq> None \<Longrightarrow> add_systemd L self s = (Inr (), s)"
  "cached s (dbus_level self) systemd \<noteq> None \<Longrightarrow>
   cached s (dbus_level self) systemd_manager \<noteq> None \<Longrightarrow>
   add_systemd_manager L self s = (Inr (), s)"
  "cached s (dbus_level self) systemd \<noteq> None \<Longrightarrow>
   cached s (dbus_level self) systemd_properties \<noteq> None \<Longrightarrow>
   add_systemd_properties L self s = (Inr (), s)"
  "cached s (dbus_level self) dbus \<noteq> None \<Longrightarrow> add_dbus L self s = (Inr (), s)"
  "cached s (dbus_level self) dbus \<noteq> None \<Longrightarrow>
   cached s (dbus_level self) dbus_interface \<noteq> None \<Longrightarrow>
   add_dbus_interface L self s = (Inr (), s)"
  by (auto simp: add_systemd_def add_systemd_manager_def add_systemd_properties_def
      add_dbus_def add_dbus_interface_def cached_def prims split: option.splits)

text \<open>
  \<open>add_systemd_unit_properties\<close> does not: with everything cached, the wrapper of
  the unit included, it still calls \<open>GetUnit\<close> and \<open>get_object\<close>, and the proxy
  object it gets takes a handle that is never stored.
\<close>

lemma cached_unit_calls_again:
  assumes "cached s (dbus_level self) systemd \<noteq> None"
    and "cached s (dbus_level self) systemd_manager = Some manager"
    and "cached s (dbus_level self) bus = Some b"
    and "unit_wrapper s (dbus_level self) unit_id \<noteq> None"
    and "L (calls s) (Method manager ''GetUnit'' [PyStr unit_id]) = Inr path"
    and "L (calls s @ [(Method manager ''GetUnit'' [PyStr unit_id], None)])
           (Get_object b ''org.freedesktop.systemd1'' path) = Inr v"
  shows "add_systemd_unit_properties L self unit_id s =
    (Inr (), s\<lparr>calls := calls s @ [(Method manager ''GetUnit'' [PyStr unit_id], None),
        (Get_object b ''org.freedesktop.systemd1'' path, None)],
      next_handle := Suc (next_handle s)\<rparr>)"
proof -
  have "add_systemd_manager L self s = (Inr (), s)"
    using assms(1,2) by (intro cached_siblings_return) simp_all
  then show ?thesis
    using assms unfolding add_systemd_unit_properties_def
    by (auto simp: cached_def unit_wrapper_def prims split: option.splits)
qed

text \<open>
  C1. The claim: every accessor, called again, performs no create or remote
  operation. \<open>add_systemd_unit_properties\<close> resolves the unit before it looks at
  the cache: the second call for \<open>foo.service\<close> on a session instance succeeds and
  adds two calls to the log, the remote \<open>GetUnit\<close> and a \<open>get_object\<close> whose
  result is dropped. Handle 0 is the bus, handle 2 the manager interface.
\<close>

theorem second_unit_access_calls_library:
  "fst (foo_once initial_state) = Inr () \<and> fst (foo_twice initial_state) = Inr () \<and>
   issued (snd (foo_once initial_state)) (snd (foo_twice initial_state)) =
     [(Method 2 ''GetUnit'' [PyStr ''foo.service''], None),
      (Get_object 0 ''org.freedesktop.systemd1''
         (PyStr ''/org/freedesktop/systemd1/unit/foo_2eservice''), None)]"
  by code_simp

section \<open>The environment of the manager\<close>

text \<open>
  C2. \<open>get_systemd_vars\<close> splits every assignment string at its first \<open>=\<close>, so a
  value may contain \<open>=\<close>, and a later entry for a name replaces an earlier one.
  For any pairs whose names are free of \<open>=\<close>, the loop run on their
  \<open>NAME=value\<close> strings returns a dict with every name once, in which a name has
  the value of its last pair. With the accessor successful and the library
  answering \<open>Get\<close> with an array of strings, the result of \<open>get_systemd_vars\<close> is
  the result of that loop. \<open>["A=1", "B=two=three"]\<close> gives
  \<open>{A: "1", B: "two=three"}\<close> and \<open>["A=1", "A=2"]\<close> gives \<open>{A: "2"}\<close>.
\<close>

theorem get_systemd_vars_parses:
  "((\<forall>p \<in> set ps. CHR ''='' \<notin> set (fst p)) \<longrightarrow>
      (\<exists>env. env_loop (assignments_of ps) [] = Inr env \<and> map_of env = map_of (rev ps) \<and>
         distinct (map fst env))) \<and>
   (fst (add_systemd_properties L self s) = Inr () \<and>
    cached (snd (add_systemd_properties L self s)) (dbus_level self) systemd_properties
      = Some props \<and>
    L (calls (snd (add_systemd_properties L self s)))
      (Method props ''Get'' [PyStr ''org.freedesktop.systemd1.Manager'', PyStr ''Environment''])
      = Inr (PyList assignments) \<longrightarrow>
    fst (get_systemd_vars L self s) = env_loop assignments []) \<and>
   env_loop [''A=1'', ''B=two=three''] [] = Inr [(''A'', ''1''), (''B'', ''two=three'')] \<and>
   env_loop [''A=1'', ''A=2''] [] = Inr [(''A'', ''2'')]"
proof (intro conjI impI)
  assume names: "\<forall>p \<in> set ps. CHR ''='' \<notin> set (fst p)"
  let ?env = "foldl (\<lambda>e (var, val). AList.update var val e) [] ps"
  have "env_loop (assignments_of ps) [] = Inr ?env"
    using names by (rule env_loop_assignments)
  moreover have "map_of ?env = map_of (rev ps)"
    by (simp add: map_of_foldl_update)
  moreover have "distinct (map fst ?env)"
    by (rule distinct_foldl_update) simp
  ultimately show "\<exists>env. env_loop (assignments_of ps) [] = Inr env \<and>
      map_of env = map_of (rev ps) \<and> distinct (map fst env)"
    by blast
next
  assume "fst (add_systemd_properties L self s) = Inr () \<and>
    cached (snd (add_systemd_properties L self s)) (dbus_level self) systemd_properties
      = Some props \<and>
    L (calls (snd (add_systemd_properties L self s)))
      (Method props ''Get'' [PyStr ''org.freedesktop.systemd1.Manager'', PyStr ''Environment''])
      = Inr (PyList assignments)"
  then show "fst (get_systemd_vars L self s) = env_loop assignments []"
    using get_systemd_vars_reply [of L self s props assignments] by blast
next
  show "env_loop [''A=1'', ''B=two=three''] [] = Inr [(''A'', ''1''), (''B'', ''two=three'')]"
    by (simp add: split1_def)
next
  show "env_loop [''A=1'', ''A=2''] [] = Inr [(''A'', ''2'')]"
    by (simp add: split1_def)
qed

theorem get_systemd_vars_parses_witness:
  "CHR ''='' \<notin> set ''A'' \<and> CHR ''='' \<notin> set ''B'' \<and>
   fst (add_systemd_properties env_lib session session_state) = Inr () \<and>
   cached (snd (add_systemd_properties env_lib session session_state)) (dbus_level session)
     systemd_properties = Some 2 \<and>
   fst (get_systemd_vars env_lib session session_state)
     = Inr [(''A'', ''1''), (''B'', ''two=three'')] \<and>
   (\<exists>env. env_loop (assignments_of [(''A'', ''1''), (''B'', ''two=three'')]) [] = Inr env \<and>
      map_of env = map_of (rev [(''A'', ''1''), (''B'', ''two=three'')]))"
proof -
  have names: "\<forall>p \<in> set [(''A'', ''1''), (''B'', ''two=three'')]. CHR ''='' \<notin> set (fst p)"
    by simp
  have ok: "fst (add_systemd_properties env_lib session session_state) = Inr ()"
    by code_simp
  have props: "cached (snd (add_systemd_properties env_lib session session_state))
      (dbus_level session) systemd_properties = Some 2"
    by code_simp
  have reply: "env_lib (calls (snd (add_systemd_properties env_lib session session_state)))
      (Method 2 ''Get'' [PyStr ''org.freedesktop.systemd1.Manager'', PyStr ''Environment''])
      = Inr (PyList [''A=1'', ''B=two=three''])"
    by (simp add: env_lib_def)
  note parses = get_systemd_vars_parses [of "[(''A'', ''1''), (''B'', ''two=three'')]" env_lib
      session session_state 2 "[''A=1'', ''B=two=three'']"]
  have "fst (get_systemd_vars env_lib session session_state)
      = env_loop [''A=1'', ''B=two=three''] []"
    using parses ok props reply by blast
  moreover have "env_loop [''A=1'', ''B=two=three''] []
      = Inr [(''A'', ''1''), (''B'', ''two=three'')]"
    using parses by blast
  moreover have "\<exists>env. env_loop (assignments_of [(''A'', ''1''), (''B'', ''two=three'')]) []
      = Inr env \<and> map_of env = map_of (rev [(''A'', ''1''), (''B'', ''two=three'')])"
    using parses names by blast
  ultimately show ?thesis using ok props by simp
qed

text \<open>
  C5. An assignment string without \<open>=\<close> makes the parse fail: the loop of
  \<open>get_systemd_vars\<close> returns a dict exactly when every string contains \<open>=\<close>, and
  otherwise raises the \<open>ValueError\<close> of the unpacking, with no entry skipped or
  repaired. With the accessor successful and the library answering \<open>Get\<close> with an
  array of strings, \<open>get_systemd_vars\<close> returns normally exactly when every string
  of the array contains \<open>=\<close>.
\<close>

theorem get_systemd_vars_malformed:
  "((\<exists>env. env_loop xs [] = Inr env) \<longleftrightarrow> (\<forall>x \<in> set xs. CHR ''='' \<in> set x)) \<and>
   ((\<exists>x \<in> set xs. CHR ''='' \<notin> set x) \<longrightarrow>
      env_loop xs [] = Inl (ValueError ''not enough values to unpack (expected 2, got 1)'')) \<and>
   (fst (add_systemd_properties L self s) = Inr () \<and>
    cached (snd (add_systemd_properties L self s)) (dbus_level self) systemd_properties
      = Some props \<and>
    L (calls (snd (add_systemd_properties L self s)))
      (Method props ''Get'' [PyStr ''org.freedesktop.systemd1.Manager'', PyStr ''Environment''])
      = Inr (PyList assignments) \<longrightarrow>
    ((\<exists>env. fst (get_systemd_vars L self s) = Inr env) \<longleftrightarrow>
       (\<forall>x \<in> set assignments. CHR ''='' \<in> set x)) \<and>
    ((\<exists>x \<in> set assignments. CHR ''='' \<notin> set x) \<longrightarrow>
       fst (get_systemd_vars L self s)
         = Inl (ValueError ''not enough values to unpack (expected 2, got 1)'')))"
proof (intro conjI impI)
  show "(\<exists>env. env_loop xs [] = Inr env) \<longleftrightarrow> (\<forall>x \<in> set xs. CHR ''='' \<in> set x)"
    by (rule env_loop_returns)
next
  assume "\<exists>x \<in> set xs. CHR ''='' \<notin> set x"
  then show "env_loop xs [] = Inl (ValueError ''not enough values to unpack (expected 2, got 1)'')"
    by (rule env_loop_raises)
next
  assume "fst (add_systemd_properties L self s) = Inr () \<and>
    cached (snd (add_systemd_properties L self s)) (dbus_level self) systemd_properties
      = Some props \<and>
    L (calls (snd (add_systemd_properties L self s)))
      (Method props ''Get'' [PyStr ''org.freedesktop.systemd1.Manager'', PyStr ''Environment''])
      = Inr (PyList assignments)"
  then have "fst (get_systemd_vars L self s) = env_loop assignments []"
    using get_systemd_vars_reply [of L self s props assignments] by blast
  then show "(\<exists>env. fst (get_systemd_vars L self s) = Inr env) \<longleftrightarrow>
       (\<forall>x \<in> set assignments. CHR ''='' \<in> set x)"
    by (simp add: env_loop_returns)
next
  assume "fst (add_systemd_properties L self s) = Inr () \<and>
    cached (snd (add_systemd_properties L self s)) (dbus_level self) systemd_properties
      = Some props \<and>
    L (calls (snd (add_systemd_properties L self s)))
      (Method props ''Get'' [PyStr ''org.freedesktop.systemd1.Manager'', PyStr ''Environment''])
      = Inr (PyList assignments)"
    and bad: "\<exists>x \<in> set assignments. CHR ''='' \<notin> set x"
  then have "fst (get_systemd_vars L self s) = env_loop assignments []"
    using get_systemd_vars_reply [of L self s props assignments] by blast
  then show "fst (get_systemd_vars L self s)
         = Inl (ValueError ''not enough values to unpack (expected 2, got 1)'')"
    using env_loop_raises [OF bad] by simp
qed

theorem get_systemd_vars_malformed_witness:
  "(\<exists>x \<in> set [''A=1'', ''B'']. CHR ''='' \<notin> set x) \<and>
   fst (add_systemd_properties malformed_lib session session_state) = Inr () \<and>
   cached (snd (add_systemd_properties malformed_lib session session_state))
     (dbus_level session) systemd_properties = Some 2 \<and>
   fst (get_systemd_vars malformed_lib session session_state)
     = Inl (ValueError ''not enough values to unpack (expected 2, got 1)'') \<and>
   CHR ''='' \<in> set ''A=1'' \<and> CHR ''='' \<in> set ''B=two=three'' \<and>
   (\<exists>env. env_loop [''A=1'', ''B=two=three''] [] = Inr env)"
proof -
  have bad: "\<exists>x \<in> set [''A=1'', ''B'']. CHR ''='' \<notin> set x"
    by simp
  have good: "\<forall>x \<in> set [''A=1'', ''B=two=three'']. CHR ''='' \<in> set x"
    by simp
  have ok: "fst (add_systemd_properties malformed_lib session session_state) = Inr ()"
    by code_simp
  have props: "cached (snd (add_systemd_properties malformed_lib session session_state))
      (dbus_level session) systemd_properties = Some 2"
    by code_simp
  have reply: "malformed_lib
      (calls (snd (add_systemd_properties malformed_lib session session_state)))
      (Method 2 ''Get'' [PyStr ''org.freedesktop.systemd1.Manager'', PyStr ''Environment''])
      = Inr (PyList [''A=1'', ''B''])"
    by (simp add: malformed_lib_def)
  note malformed = get_systemd_vars_malformed [of "[''A=1'', ''B=two=three'']" malformed_lib
      session session_state 2 "[''A=1'', ''B'']"]
  have "fst (get_systemd_vars malformed_lib session session_state)
      = Inl (ValueError ''not enough values to unpack (expected 2, got 1)'')"
    using malformed bad ok props reply by blast
  moreover have "\<exists>env. env_loop [''A=1'', ''B=two=three''] [] = Inr env"
    using malformed good by blast
  ultimately show ?thesis using bad ok props by simp
qed

section \<open>Construction and the connection\<close>

text \<open>
  C3. Construction with a level other than \<open>"system"\<close> and \<open>"session"\<close> raises
  \<open>ValueError\<close> and touches nothing. With one of the two levels it never raises
  \<open>ValueError\<close>: it succeeds when the connection is cached, and otherwise
  succeeds exactly when the connect call of the library returns (a fault of that
  call is the outcome). However many constructions for the level succeed one after
  the other, on a cache without a connection they log one connect call in all and
  leave the handle it created in the cache, and on a cache with a connection they
  log nothing; no construction and no method replaces a cached connection.
\<close>

theorem construction_levels:
  "(level \<notin> set [''system'', ''session''] \<longrightarrow>
      DbusInteractions L level s =
        (Inl (ValueError (''dbus_level can be '' @ quoted ''system'' @ '' or ''
           @ quoted ''session'' @ '', got '' @ quoted level)), s)) \<and>
   (level \<in> set [''system'', ''session''] \<and> dbus_objects s level \<noteq> None \<longrightarrow>
      fst (DbusInteractions L level s) =
        (if cached s level bus = None then
           (case L (calls s) (connect_call level) of
              Inl f \<Rightarrow> Inl (DBusException f)
            | Inr v \<Rightarrow> Inr \<lparr>dbus_level = level\<rparr>)
         else Inr \<lparr>dbus_level = level\<rparr>)) \<and>
   (level \<in> set [''system'', ''session''] \<and> 0 < n \<and>
    fst (repeat n (DbusInteractions L level) s) = Inr () \<longrightarrow>
      calls (snd (repeat n (DbusInteractions L level) s)) =
        calls s @ (if cached s level bus = None then [(connect_call level, None)] else []) \<and>
      cached (snd (repeat n (DbusInteractions L level) s)) level bus =
        (if cached s level bus = None then Some (next_handle s) else cached s level bus)) \<and>
   (cached s l bus = Some b \<longrightarrow>
      cached (snd (DbusInteractions L level s)) l bus = Some b \<and>
      cached (snd (perform L self op s)) l bus = Some b)"
proof (intro conjI impI)
  assume "level \<notin> set [''system'', ''session'']"
  then show "DbusInteractions L level s =
        (Inl (ValueError (''dbus_level can be '' @ quoted ''system'' @ '' or ''
           @ quoted ''session'' @ '', got '' @ quoted level)), s)"
    by (rule init_invalid)
next
  assume "level \<in> set [''system'', ''session''] \<and> dbus_objects s level \<noteq> None"
  then show "fst (DbusInteractions L level s) =
        (if cached s level bus = None then
           (case L (calls s) (connect_call level) of
              Inl f \<Rightarrow> Inl (DBusException f)
            | Inr v \<Rightarrow> Inr \<lparr>dbus_level = level\<rparr>)
         else Inr \<lparr>dbus_level = level\<rparr>)"
    using init_outcome [of level s L] by blast
next
  assume a: "level \<in> set [''system'', ''session''] \<and> 0 < n \<and>
    fst (repeat n (DbusInteractions L level) s) = Inr ()"
  show "calls (snd (repeat n (DbusInteractions L level) s)) =
        calls s @ (if cached s level bus = None then [(connect_call level, None)] else [])"
    using a repeat_fresh [of level s n L] repeat_cached [of level s n L]
    by (cases "cached s level bus = None") auto
  show "cached (snd (repeat n (DbusInteractions L level) s)) level bus =
        (if cached s level bus = None then Some (next_handle s) else cached s level bus)"
    using a repeat_fresh [of level s n L] repeat_cached [of level s n L]
    by (cases "cached s level bus = None") auto
next
  assume b: "cached s l bus = Some b"
  have "keeps s (snd (DbusInteractions L level s))"
    using keeps_DbusInteractions [of L level] unfolding preserves_def by blast
  then show "cached (snd (DbusInteractions L level s)) l bus = Some b"
    using b by (rule cached_kept)
  have "keeps s (snd (perform L self op s))"
    using keeps_perform [of L self op] unfolding preserves_def by blast
  then show "cached (snd (perform L self op s)) l bus = Some b"
    using b by (rule cached_kept)
qed

theorem construction_levels_witness:
  "''user'' \<notin> set [''system'', ''session''] \<and>
   DbusInteractions foo_lib ''user'' initial_state =
     (Inl (ValueError (''dbus_level can be '' @ quoted ''system'' @ '' or ''
        @ quoted ''session'' @ '', got '' @ quoted ''user'')), initial_state) \<and>
   ''session'' \<in> set [''system'', ''session''] \<and>
   dbus_objects initial_state ''session'' \<noteq> None \<and> 0 < (3::nat) \<and>
   fst (DbusInteractions foo_lib ''session'' initial_state) = Inr \<lparr>dbus_level = ''session''\<rparr> \<and>
   fst (repeat 3 (DbusInteractions foo_lib ''session'') initial_state) = Inr () \<and>
   calls (snd (repeat 3 (DbusInteractions foo_lib ''session'') initial_state))
     = [(SessionBus, None)] \<and>
   cached session_state ''session'' bus = Some 0 \<and>
   cached (snd (perform foo_lib session Reload_systemd session_state)) ''session'' bus = Some 0"
proof -
  have bad: "''user'' \<notin> set [''system'', ''session'']" by simp
  have good: "''session'' \<in> set [''system'', ''session'']" by simp
  have dict: "dbus_objects initial_state ''session'' \<noteq> None"
    by (simp add: initial_state_def)
  have fresh: "cached initial_state ''session'' bus = None"
    by (simp add: cached_def initial_state_def empty_slots_def)
  have ok: "fst (repeat 3 (DbusInteractions foo_lib ''session'') initial_state) = Inr ()"
    by code_simp
  have b: "cached session_state ''session'' bus = Some 0"
    by code_simp
  have 1: "DbusInteractions foo_lib ''user'' initial_state =
     (Inl (ValueError (''dbus_level can be '' @ quoted ''system'' @ '' or ''
        @ quoted ''session'' @ '', got '' @ quoted ''user'')), initial_state)"
    using construction_levels [where level = "''user''" and L = foo_lib and s = initial_state]
      bad
    by blast
  have 2: "fst (DbusInteractions foo_lib ''session'' initial_state)
      = Inr \<lparr>dbus_level = ''session''\<rparr>"
    using construction_levels [where level = "''session''" and L = foo_lib
        and s = initial_state] good dict fresh
    by (simp add: foo_lib_def)
  have 3: "calls (snd (repeat 3 (DbusInteractions foo_lib ''session'') initial_state))
     = [(SessionBus, None)]"
    using construction_levels [where level = "''session''" and L = foo_lib
        and s = initial_state and n = 3] good ok fresh
    by (simp add: connect_call_def initial_state_def)
  have 4: "cached (snd (perform foo_lib session Reload_systemd session_state)) ''session'' bus
      = Some 0"
    using construction_levels [where s = session_state and l = "''session''" and b = 0
        and L = foo_lib and self = session and op = Reload_systemd] b
    by blast
  show ?thesis using bad good dict ok b 1 2 3 4 by simp
qed

section \<open>Dependency order\<close>

text \<open>
  C4. On a cache that holds only the connection, a successful
  \<open>add_systemd_unit_properties\<close> makes five library calls in this order: the
  manager root object, the manager interface on it, \<open>GetUnit\<close> on that interface,
  the object at the path \<open>GetUnit\<close> returned, the properties interface on that
  object. Every dependent entry is built after its prerequisite. With a library
  that never faults, on a cache that holds only the connection every accessor
  succeeds and creates the prerequisite first: \<open>add_systemd_manager\<close> and
  \<open>add_systemd_properties\<close> call \<open>get_object\<close> for the manager root object and
  then wrap it, \<open>add_dbus_interface\<close> calls \<open>get_object\<close> for the bus object and
  then wraps it, and the objects are fetched from the cached connection; on the
  empty inner dict construction connects first and leaves just the connection.
  From any state, a successful construction leaves the connection cached and a
  successful accessor leaves its own entry cached together with the entries it
  is built on. The fresh cache is closed under the dependency order (connection,
  object, interface, per-unit interface), and construction and every method keep
  it so, whatever their outcome.
\<close>

theorem dependency_order:
  "(dbus_objects s (dbus_level self) = Some (empty_slots\<lparr>bus := Some b\<rparr>) \<and>
    fst (add_systemd_unit_properties L self unit_id s) = Inr () \<longrightarrow>
      (\<exists>path. map fst (issued s (snd (add_systemd_unit_properties L self unit_id s))) =
         [Get_object b ''org.freedesktop.systemd1'' (PyStr ''/org/freedesktop/systemd1''),
          Interface (next_handle s) ''org.freedesktop.systemd1.Manager'',
          Method (Suc (next_handle s)) ''GetUnit'' [PyStr unit_id],
          Get_object b ''org.freedesktop.systemd1'' path,
          Interface (Suc (Suc (next_handle s))) ''org.freedesktop.DBus.Properties''])) \<and>
   (dbus_objects s (dbus_level self) = Some (empty_slots\<lparr>bus := Some b\<rparr>) \<and> answers L \<longrightarrow>
      fst (add_systemd L self s) = Inr () \<and>
      map fst (issued s (snd (add_systemd L self s))) =
        [Get_object b ''org.freedesktop.systemd1'' (PyStr ''/org/freedesktop/systemd1'')] \<and>
      fst (add_systemd_manager L self s) = Inr () \<and>
      map fst (issued s (snd (add_systemd_manager L self s))) =
        [Get_object b ''org.freedesktop.systemd1'' (PyStr ''/org/freedesktop/systemd1''),
         Interface (next_handle s) ''org.freedesktop.systemd1.Manager''] \<and>
      fst (add_systemd_properties L self s) = Inr () \<and>
      map fst (issued s (snd (add_systemd_properties L self s))) =
        [Get_object b ''org.freedesktop.systemd1'' (PyStr ''/org/freedesktop/systemd1''),
         Interface (next_handle s) ''org.freedesktop.DBus.Properties''] \<and>
      fst (add_dbus L self s) = Inr () \<and>
      map fst (issued s (snd (add_dbus L self s))) =
        [Get_object b ''org.freedesktop.DBus'' (PyStr ''/org/freedesktop/DBus'')] \<and>
      fst (add_dbus_interface L self s) = Inr () \<and>
      map fst (issued s (snd (add_dbus_interface L self s))) =
        [Get_object b ''org.freedesktop.DBus'' (PyStr ''/org/freedesktop/DBus''),
         Interface (next_handle s) ''org.freedesktop.DBus''] \<and>
      fst (add_systemd_unit_properties L self unit_id s) = Inr ()) \<and>
   (level \<in> set [''system'', ''session''] \<and> dbus_objects s level = Some empty_slots \<and>
    answers L \<longrightarrow>
      fst (DbusInteractions L level s) = Inr \<lparr>dbus_level = level\<rparr> \<and>
      map fst (issued s (snd (DbusInteractions L level s))) = [connect_call level] \<and>
      dbus_objects (snd (DbusInteractions L level s)) level
        = Some (empty_slots\<lparr>bus := Some (next_handle s)\<rparr>)) \<and>
   (fst (DbusInteractions L level s) = Inr x \<longrightarrow>
      cached (snd (DbusInteractions L level s)) level bus \<noteq> None) \<and>
   (fst (add_systemd L self s) = Inr () \<longrightarrow>
      cached (snd (add_systemd L self s)) (dbus_level self) systemd \<noteq> None) \<and>
   (fst (add_systemd_manager L self s) = Inr () \<longrightarrow>
      cached (snd (add_systemd_manager L self s)) (dbus_level self) systemd \<noteq> None \<and>
      cached (snd (add_systemd_manager L self s)) (dbus_level self) systemd_manager \<noteq> None) \<and>
   (fst (add_systemd_properties L self s) = Inr () \<longrightarrow>
      cached (snd (add_systemd_properties L self s)) (dbus_level self) systemd \<noteq> None \<and>
      cached (snd (add_systemd_properties L self s)) (dbus_level self) systemd_properties
        \<noteq> None) \<and>
   (fst (add_systemd_unit_properties L self unit_id s) = Inr () \<longrightarrow>
      cached (snd (add_systemd_unit_properties L self unit_id s)) (dbus_level self) bus
        \<noteq> None \<and>
      cached (snd (add_systemd_unit_properties L self unit_id s)) (dbus_level self) systemd
        \<noteq> None \<and>
      cached (snd (add_systemd_unit_properties L self unit_id s)) (dbus_level self)
        systemd_manager \<noteq> None \<and>
      unit_wrapper (snd (add_systemd_unit_properties L self unit_id s)) (dbus_level self)
        unit_id \<noteq> None) \<and>
   (fst (add_dbus L self s) = Inr () \<longrightarrow>
      cached (snd (add_dbus L self s)) (dbus_level self) dbus \<noteq> None) \<and>
   (fst (add_dbus_interface L self s) = Inr () \<longrightarrow>
      cached (snd (add_dbus_interface L self s)) (dbus_level self) dbus \<noteq> None \<and>
      cached (snd (add_dbus_interface L self s)) (dbus_level self) dbus_interface \<noteq> None) \<and>
   all_closed initial_state \<and>
   (all_closed s \<longrightarrow>
      all_closed (snd (DbusInteractions L level s)) \<and>
      all_closed (snd (perform L self op s)))"
proof -
  have order: "dbus_objects s (dbus_level self) = Some (empty_slots\<lparr>bus := Some b\<rparr>) \<and>
    fst (add_systemd_unit_properties L self unit_id s) = Inr () \<longrightarrow>
      (\<exists>path. map fst (issued s (snd (add_systemd_unit_properties L self unit_id s))) =
         [Get_object b ''org.freedesktop.systemd1'' (PyStr ''/org/freedesktop/systemd1''),
          Interface (next_handle s) ''org.freedesktop.systemd1.Manager'',
          Method (Suc (next_handle s)) ''GetUnit'' [PyStr unit_id],
          Get_object b ''org.freedesktop.systemd1'' path,
          Interface (Suc (Suc (next_handle s))) ''org.freedesktop.DBus.Properties''])"
    using unit_access_order [of s self b L unit_id] by blast
  have fresh: "dbus_objects s (dbus_level self) = Some (empty_slots\<lparr>bus := Some b\<rparr>) \<and>
    answers L \<longrightarrow>
      fst (add_systemd L self s) = Inr () \<and>
      map fst (issued s (snd (add_systemd L self s))) =
        [Get_object b ''org.freedesktop.systemd1'' (PyStr ''/org/freedesktop/systemd1'')] \<and>
      fst (add_systemd_manager L self s) = Inr () \<and>
      map fst (issued s (snd (add_systemd_manager L self s))) =
        [Get_object b ''org.freedesktop.systemd1'' (PyStr ''/org/freedesktop/systemd1''),
         Interface (next_handle s) ''org.freedesktop.systemd1.Manager''] \<and>
      fst (add_systemd_properties L self s) = Inr () \<and>
      map fst (issued s (snd (add_systemd_properties L self s))) =
        [Get_object b ''org.freedesktop.systemd1'' (PyStr ''/org/freedesktop/systemd1''),
         Interface (next_handle s) ''org.freedesktop.DBus.Properties''] \<and>
      fst (add_dbus L self s) = Inr () \<and>
      map fst (issued s (snd (add_dbus L self s))) =
        [Get_object b ''org.freedesktop.DBus'' (PyStr ''/org/freedesktop/DBus'')] \<and>
      fst (add_dbus_interface L self s) = Inr () \<and>
      map fst (issued s (snd (add_dbus_interface L self s))) =
        [Get_object b ''org.freedesktop.DBus'' (PyStr ''/org/freedesktop/DBus''),
         Interface (next_handle s) ''org.freedesktop.DBus''] \<and>
      fst (add_systemd_unit_properties L self unit_id s) = Inr ()"
    using fresh_add_systemd [of s self b L] fresh_add_systemd_manager [of s self b L]
      fresh_add_systemd_properties [of s self b L] fresh_add_dbus [of s self b L]
      fresh_add_dbus_interface [of s self b L]
      fresh_add_systemd_unit_properties [of s self b L unit_id]
    by blast
  have init: "level \<in> set [''system'', ''session''] \<and> dbus_objects s level = Some empty_slots \<and>
    answers L \<longrightarrow>
      fst (DbusInteractions L level s) = Inr \<lparr>dbus_level = level\<rparr> \<and>
      map fst (issued s (snd (DbusInteractions L level s))) = [connect_call level] \<and>
      dbus_objects (snd (DbusInteractions L level s)) level
        = Some (empty_slots\<lparr>bus := Some (next_handle s)\<rparr>)"
    using fresh_DbusInteractions [of level s L] by blast
  have e0: "fst (DbusInteractions L level s) = Inr x \<longrightarrow>
      cached (snd (DbusInteractions L level s)) level bus \<noteq> None"
    using ensuresD [OF ensures_DbusInteractions, of L level s x] by blast
  have e1: "fst (add_systemd L self s) = Inr () \<longrightarrow>
      cached (snd (add_systemd L self s)) (dbus_level self) systemd \<noteq> None"
    using ensuresD [OF ensures_add_systemd, of L self s "()"] by blast
  have e2: "fst (add_systemd_manager L self s) = Inr () \<longrightarrow>
      cached (snd (add_systemd_manager L self s)) (dbus_level self) systemd \<noteq> None \<and>
      cached (snd (add_systemd_manager L self s)) (dbus_level self) systemd_manager \<noteq> None"
    using ensuresD [OF ensures_manager_chain, of L self s "()"] by blast
  have e3: "fst (add_systemd_properties L self s) = Inr () \<longrightarrow>
      cached (snd (add_systemd_properties L self s)) (dbus_level self) systemd \<noteq> None \<and>
      cached (snd (add_systemd_properties L self s)) (dbus_level self) systemd_properties
        \<noteq> None"
    using ensuresD [OF ensures_properties_chain, of L self s "()"] by blast
  have e4: "fst (add_systemd_unit_properties L self unit_id s) = Inr () \<longrightarrow>
      cached (snd (add_systemd_unit_properties L self unit_id s)) (dbus_level self) bus
        \<noteq> None \<and>
      cached (snd (add_systemd_unit_properties L self unit_id s)) (dbus_level self) systemd
        \<noteq> None \<and>
      cached (snd (add_systemd_unit_properties L self unit_id s)) (dbus_level self)
        systemd_manager \<noteq> None \<and>
      unit_wrapper (snd (add_systemd_unit_properties L self unit_id s)) (dbus_level self)
        unit_id \<noteq> None"
    using ensuresD [OF ensures_unit_chain, of L self unit_id s "()"] by blast
  have e5: "fst (add_dbus L self s) = Inr () \<longrightarrow>
      cached (snd (add_dbus L self s)) (dbus_level self) dbus \<noteq> None"
    using ensuresD [OF ensures_add_dbus, of L self s "()"] by blast
  have e6: "fst (add_dbus_interface L self s) = Inr () \<longrightarrow>
      cached (snd (add_dbus_interface L self s)) (dbus_level self) dbus \<noteq> None \<and>
      cached (snd (add_dbus_interface L self s)) (dbus_level self) dbus_interface \<noteq> None"
    using ensuresD [OF ensures_dbus_chain, of L self s "()"] by blast
  have c0: "all_closed initial_state" by (rule closed_initial)
  have c1: "all_closed s \<longrightarrow>
      all_closed (snd (DbusInteractions L level s)) \<and>
      all_closed (snd (perform L self op s))"
    using closed_DbusInteractions [of L level] closed_perform [of L self op]
    unfolding preserves_def closed_step_def by blast
  show ?thesis
    by (intro conjI order fresh init e0 e1 e2 e3 e4 e5 e6 c0 c1)
qed

theorem dependency_order_witness:
  "dbus_objects session_state (dbus_level session) = Some (empty_slots\<lparr>bus := Some 0\<rparr>) \<and>
   answers foo_lib \<and>
   fst (add_systemd_unit_properties foo_lib session ''foo.service'' session_state) = Inr () \<and>
   (\<exists>path. map fst (issued session_state
       (snd (add_systemd_unit_properties foo_lib session ''foo.service'' session_state))) =
      [Get_object 0 ''org.freedesktop.systemd1'' (PyStr ''/org/freedesktop/systemd1''),
       Interface 1 ''org.freedesktop.systemd1.Manager'',
       Method 2 ''GetUnit'' [PyStr ''foo.service''],
       Get_object 0 ''org.freedesktop.systemd1'' path,
       Interface 3 ''org.freedesktop.DBus.Properties'']) \<and>
   map fst (issued session_state (snd (add_systemd_properties foo_lib session session_state))) =
     [Get_object 0 ''org.freedesktop.systemd1'' (PyStr ''/org/freedesktop/systemd1''),
      Interface 1 ''org.freedesktop.DBus.Properties''] \<and>
   map fst (issued session_state (snd (add_dbus_interface foo_lib session session_state))) =
     [Get_object 0 ''org.freedesktop.DBus'' (PyStr ''/org/freedesktop/DBus''),
      Interface 1 ''org.freedesktop.DBus''] \<and>
   fst (add_dbus_interface foo_lib session session_state) = Inr () \<and>
   cached (snd (add_dbus_interface foo_lib session session_state)) (dbus_level session) dbus
     \<noteq> None \<and>
   cached (snd (add_dbus_interface foo_lib session session_state)) (dbus_level session)
     dbus_interface \<noteq> None \<and>
   dbus_objects initial_state ''session'' = Some empty_slots \<and>
   map fst (issued initial_state (snd (DbusInteractions foo_lib ''session'' initial_state)))
     = [SessionBus] \<and>
   all_closed session_state \<and> all_closed foo_state"
proof -
  have fresh: "dbus_objects session_state (dbus_level session)
      = Some (empty_slots\<lparr>bus := Some 0\<rparr>)"
    by code_simp
  have lib: "answers foo_lib"
    by (simp add: answers_def foo_lib_def)
  have ok: "fst (add_systemd_unit_properties foo_lib session ''foo.service'' session_state)
      = Inr ()"
    by code_simp
  have n: "next_handle session_state = 1"
    by code_simp
  have level: "''session'' \<in> set [''system'', ''session'']"
    by simp
  have empty: "dbus_objects initial_state ''session'' = Some empty_slots"
    by (simp add: initial_state_def)
  note at_session = dependency_order [where s = session_state and self = session and b = 0
      and L = foo_lib and unit_id = "''foo.service''"]
  have 1: "\<exists>path. map fst (issued session_state
       (snd (add_systemd_unit_properties foo_lib session ''foo.service'' session_state))) =
      [Get_object 0 ''org.freedesktop.systemd1'' (PyStr ''/org/freedesktop/systemd1''),
       Interface 1 ''org.freedesktop.systemd1.Manager'',
       Method 2 ''GetUnit'' [PyStr ''foo.service''],
       Get_object 0 ''org.freedesktop.systemd1'' path,
       Interface 3 ''org.freedesktop.DBus.Properties'']"
    using at_session fresh ok n by (simp add: numeral_2_eq_2 numeral_3_eq_3)
  have 2: "map fst (issued session_state
       (snd (add_systemd_properties foo_lib session session_state))) =
     [Get_object 0 ''org.freedesktop.systemd1'' (PyStr ''/org/freedesktop/systemd1''),
      Interface 1 ''org.freedesktop.DBus.Properties'']"
    using at_session fresh lib n by simp
  have 3: "map fst (issued session_state
       (snd (add_dbus_interface foo_lib session session_state))) =
     [Get_object 0 ''org.freedesktop.DBus'' (PyStr ''/org/freedesktop/DBus''),
      Interface 1 ''org.freedesktop.DBus'']"
    using at_session fresh lib n by simp
  have 4: "fst (add_dbus_interface foo_lib session session_state) = Inr ()"
    using at_session fresh lib by blast
  have 5: "cached (snd (add_dbus_interface foo_lib session session_state))
        (dbus_level session) dbus \<noteq> None \<and>
      cached (snd (add_dbus_interface foo_lib session session_state))
        (dbus_level session) dbus_interface \<noteq> None"
    using at_session 4 by blast
  have 6: "map fst (issued initial_state
       (snd (DbusInteractions foo_lib ''session'' initial_state))) = [SessionBus]"
    using dependency_order [where s = initial_state and L = foo_lib
        and level = "''session''"] level empty lib
    by (simp add: connect_call_def)
  have 7: "all_closed session_state"
    unfolding session_state_def
    using dependency_order [where s = initial_state and L = foo_lib
        and level = "''session''"]
    by blast
  have 8: "all_closed foo_state"
    unfolding foo_state_def
    using dependency_order [where s = session_state and self = session and L = foo_lib
        and op = "Add_systemd_unit_properties ''foo.service''"] 7
    by blast
  show ?thesis using fresh lib ok empty 1 2 3 4 5 6 7 8 by simp
qed

section \<open>Wrappers of units\<close>

text \<open>
  C6. An access to a unit that succeeds leaves a wrapper for the unit id in the
  nested dict, and \<open>get_unit_property\<close> calls \<open>Get\<close> on that wrapper. A wrapper
  cached for a unit id stays the same handle through every later method, so a
  second access for the unit id finds the identical wrapper. In a cache built
  from the fresh one, the nested dict of a level has one wrapper per unit id and
  two different unit ids have two different wrappers.
\<close>

theorem unit_wrapper_identity:
  "(fst (add_systemd_unit_properties L self unit_id s) = Inr () \<longrightarrow>
      (\<exists>w. unit_wrapper (snd (add_systemd_unit_properties L self unit_id s))
              (dbus_level self) unit_id = Some w \<and>
           get_unit_property L self unit_id unit_property s =
             lib_call L w ''Get'' [PyStr ''org.freedesktop.systemd1.Unit'', PyStr unit_property]
               (snd (add_systemd_unit_properties L self unit_id s)))) \<and>
   (unit_wrapper s l u = Some w \<longrightarrow> unit_wrapper (snd (perform L self op s)) l u = Some w) \<and>
   (sound s \<and> u1 \<noteq> u2 \<and> unit_wrapper s l u1 = Some w1 \<and> unit_wrapper s l u2 = Some w2 \<longrightarrow>
      w1 \<noteq> w2) \<and>
   sound initial_state \<and>
   (sound s \<longrightarrow>
      sound (snd (DbusInteractions L level s)) \<and> sound (snd (perform L self op s)))"
proof (intro conjI impI)
  assume "fst (add_systemd_unit_properties L self unit_id s) = Inr ()"
  then show "\<exists>w. unit_wrapper (snd (add_systemd_unit_properties L self unit_id s))
              (dbus_level self) unit_id = Some w \<and>
           get_unit_property L self unit_id unit_property s =
             lib_call L w ''Get'' [PyStr ''org.freedesktop.systemd1.Unit'', PyStr unit_property]
               (snd (add_systemd_unit_properties L self unit_id s))"
    by (rule get_unit_property_wrapper)
next
  assume w: "unit_wrapper s l u = Some w"
  have "keeps s (snd (perform L self op s))"
    using keeps_perform [of L self op] unfolding preserves_def by blast
  then show "unit_wrapper (snd (perform L self op s)) l u = Some w"
    using w by (rule wrapper_kept)
next
  assume "sound s \<and> u1 \<noteq> u2 \<and> unit_wrapper s l u1 = Some w1 \<and> unit_wrapper s l u2 = Some w2"
  then show "w1 \<noteq> w2"
    using sound_distinct [of s u1 u2 l w1 w2] by blast
next
  show "sound initial_state" by (rule sound_initial)
next
  assume c: "sound s"
  show "sound (snd (DbusInteractions L level s))"
    using sound_DbusInteractions [of L level] c unfolding preserves_def sound_step_def
    by blast
  show "sound (snd (perform L self op s))"
    using sound_perform [of L self op] c unfolding preserves_def sound_step_def by blast
qed

theorem unit_wrapper_identity_witness:
  "fst (add_systemd_unit_properties foo_lib session ''foo.service'' session_state) = Inr () \<and>
   unit_wrapper foo_state ''session'' ''foo.service'' = Some 4 \<and>
   unit_wrapper (snd (perform foo_lib session (Add_systemd_unit_properties ''foo.service'')
     foo_state)) ''session'' ''foo.service'' = Some 4 \<and>
   unit_wrapper (snd (perform foo_lib session (Get_unit_property ''foo.service'' ''Id'')
     foo_state)) ''session'' ''foo.service'' = Some 4 \<and>
   sound foo_bar_state \<and> ''foo.service'' \<noteq> ''bar.service'' \<and>
   unit_wrapper foo_bar_state ''session'' ''foo.service'' = Some 4 \<and>
   unit_wrapper foo_bar_state ''session'' ''bar.service'' = Some 6 \<and> (4::nat) \<noteq> 6"
proof -
  have ok: "fst (add_systemd_unit_properties foo_lib session ''foo.service'' session_state)
      = Inr ()"
    by code_simp
  have foo: "unit_wrapper foo_state ''session'' ''foo.service'' = Some 4"
    by code_simp
  have bar: "unit_wrapper foo_bar_state ''session'' ''bar.service'' = Some 6"
    by code_simp
  have 1: "unit_wrapper (snd (perform foo_lib session
      (Add_systemd_unit_properties ''foo.service'') foo_state)) ''session'' ''foo.service''
      = Some 4"
    using unit_wrapper_identity [where s = foo_state and l = "''session''"
        and u = "''foo.service''" and w = 4 and L = foo_lib and self = session
        and op = "Add_systemd_unit_properties ''foo.service''"] foo
    by blast
  have 2: "unit_wrapper (snd (perform foo_lib session
      (Get_unit_property ''foo.service'' ''Id'') foo_state)) ''session'' ''foo.service''
      = Some 4"
    using unit_wrapper_identity [where s = foo_state and l = "''session''"
        and u = "''foo.service''" and w = 4 and L = foo_lib and self = session
        and op = "Get_unit_property ''foo.service'' ''Id''"] foo
    by blast
  have 3: "unit_wrapper foo_bar_state ''session'' ''foo.service'' = Some 4"
    unfolding foo_bar_state_def
    using unit_wrapper_identity [where s = foo_state and l = "''session''"
        and u = "''foo.service''" and w = 4 and L = foo_lib and self = session
        and op = "Add_systemd_unit_properties ''bar.service''"] foo
    by blast
  have s1: "sound session_state"
    unfolding session_state_def
    using unit_wrapper_identity [where s = initial_state and L = foo_lib
        and level = "''session''"]
    by blast
  have s2: "sound foo_state"
    unfolding foo_state_def
    using unit_wrapper_identity [where s = session_state and L = foo_lib and self = session
        and op = "Add_systemd_unit_properties ''foo.service''"] s1
    by blast
  have s3: "sound foo_bar_state"
    unfolding foo_bar_state_def
    using unit_wrapper_identity [where s = foo_state and L = foo_lib and self = session
        and op = "Add_systemd_unit_properties ''bar.service''"] s2
    by blast
  have d: "''foo.service'' \<noteq> ''bar.service''" by simp
  have 4: "(4::nat) \<noteq> 6"
    using unit_wrapper_identity [where s = foo_bar_state and l = "''session''"
        and ?u1.0 = "''foo.service''" and ?u2.0 = "''bar.service''" and ?w1.0 = 4
        and ?w2.0 = 6] s3 d 3 bar
    by blast
  show ?thesis using ok foo bar 1 2 3 s3 d 4 by simp
qed

section \<open>The calls the operations issue\<close>

text \<open>
  C7. \<open>set_systemd_vars\<close> on a dict of variables issues one remote call,
  \<open>SetEnvironment\<close> on the cached manager interface, with the list of
  \<open>NAME=value\<close> strings in the order the dict iterates: once
  \<open>add_systemd_manager\<close> has succeeded, that call is the only remote method call
  the operation adds to the log. Entry \<open>i\<close> of the list is name \<open>i\<close>, \<open>=\<close>, value
  \<open>i\<close>; \<open>{"X": "y", "Z": "1 2"}\<close> gives \<open>["X=y", "Z=1 2"]\<close>.
\<close>

theorem set_systemd_vars_call:
  "(fst (add_systemd_manager L self s) = Inr () \<longrightarrow>
      (\<exists>manager.
         cached (snd (add_systemd_manager L self s)) (dbus_level self) systemd_manager
           = Some manager \<and>
         remote_calls (issued s (snd (set_systemd_vars L self vars_dict s))) =
           [Method manager ''SetEnvironment'' [PyList (assignments_of vars_dict)]])) \<and>
   length (assignments_of vars_dict) = length vars_dict \<and>
   (\<forall>i < length vars_dict.
      assignments_of vars_dict ! i = fst (vars_dict ! i) @ ''='' @ snd (vars_dict ! i)) \<and>
   assignments_of [(''X'', ''y''), (''Z'', ''1 2'')] = [''X=y'', ''Z=1 2'']"
proof (intro conjI impI)
  assume ok: "fst (add_systemd_manager L self s) = Inr ()"
  let ?args = "\<lambda>m::handle. [PyList (assignments_of vars_dict)]"
  from manager_method [OF ok, of "''SetEnvironment''" ?args "\<lambda>_. ret ()"]
  obtain manager where m:
    "cached (snd (add_systemd_manager L self s)) (dbus_level self) systemd_manager = Some manager"
    "bindE (add_systemd_manager L self) (\<lambda>_.
       bindE (slot self ''systemd_manager'' systemd_manager) (\<lambda>m.
       bindE (lib_call L m ''SetEnvironment'' (?args m)) (\<lambda>_. ret ()))) s
     = bindE (lib_call L manager ''SetEnvironment'' (?args manager)) (\<lambda>_. ret ())
         (snd (add_systemd_manager L self s))"
    "remote_calls (issued s (snd (lib_call L manager ''SetEnvironment'' (?args manager)
        (snd (add_systemd_manager L self s))))) = [Method manager ''SetEnvironment'' (?args manager)]"
    by metis
  have "snd (set_systemd_vars L self vars_dict s) =
      snd (lib_call L manager ''SetEnvironment'' (?args manager)
        (snd (add_systemd_manager L self s)))"
    unfolding set_systemd_vars_def Let_def m(2) by (rule snd_bindE_ret)
  then show "\<exists>manager.
         cached (snd (add_systemd_manager L self s)) (dbus_level self) systemd_manager
           = Some manager \<and>
         remote_calls (issued s (snd (set_systemd_vars L self vars_dict s))) =
           [Method manager ''SetEnvironment'' [PyList (assignments_of vars_dict)]]"
    using m(1,3) by auto
next
  show "length (assignments_of vars_dict) = length vars_dict"
    by (simp add: assignments_of_def)
next
  show "\<forall>i < length vars_dict.
      assignments_of vars_dict ! i = fst (vars_dict ! i) @ ''='' @ snd (vars_dict ! i)"
    by (simp add: assignments_of_def split: prod.splits)
next
  show "assignments_of [(''X'', ''y''), (''Z'', ''1 2'')] = [''X=y'', ''Z=1 2'']"
    by (simp add: assignments_of_def)
qed

theorem set_systemd_vars_call_witness:
  "fst (add_systemd_manager foo_lib session session_state) = Inr () \<and>
   remote_calls (issued session_state
     (snd (set_systemd_vars foo_lib session [(''X'', ''y''), (''Z'', ''1 2'')] session_state))) =
     [Method 2 ''SetEnvironment'' [PyList [''X=y'', ''Z=1 2'']]]"
proof -
  have ok: "fst (add_systemd_manager foo_lib session session_state) = Inr ()"
    by code_simp
  have m: "cached (snd (add_systemd_manager foo_lib session session_state))
      (dbus_level session) systemd_manager = Some 2"
    by code_simp
  show ?thesis
    using set_systemd_vars_call [of foo_lib session session_state
        "[(''X'', ''y''), (''Z'', ''1 2'')]"] ok m
    by auto
qed

text \<open>
  C8. \<open>stop_unit\<close> without a job mode is \<open>stop_unit\<close> with \<open>"fail"\<close>: once
  \<open>add_systemd_manager\<close> has succeeded, the only remote method call it issues is
  \<open>StopUnit(unit, "fail")\<close> on the cached manager interface, and its outcome is
  the outcome of that call, the job the library returns or the fault it raises.
\<close>

theorem stop_unit_default_job_mode:
  "stop_unit L self unit None = stop_unit L self unit (Some ''fail'') \<and>
   (fst (add_systemd_manager L self s) = Inr () \<longrightarrow>
      (\<exists>manager.
         cached (snd (add_systemd_manager L self s)) (dbus_level self) systemd_manager
           = Some manager \<and>
         remote_calls (issued s (snd (stop_unit L self unit None s))) =
           [Method manager ''StopUnit'' [PyStr unit, PyStr ''fail'']] \<and>
         fst (stop_unit L self unit None s) =
           (case L (calls (snd (add_systemd_manager L self s)))
                   (Method manager ''StopUnit'' [PyStr unit, PyStr ''fail'']) of
              Inl f \<Rightarrow> Inl (DBusException f)
            | Inr job \<Rightarrow> Inr job)))"
proof (intro conjI impI)
  show "stop_unit L self unit None = stop_unit L self unit (Some ''fail'')"
    by (simp add: stop_unit_def)
next
  assume ok: "fst (add_systemd_manager L self s) = Inr ()"
  let ?args = "\<lambda>m::handle. [PyStr unit, PyStr ''fail'']"
  from manager_method [OF ok, of "''StopUnit''" ?args]
  obtain manager where m:
    "cached (snd (add_systemd_manager L self s)) (dbus_level self) systemd_manager = Some manager"
    "bindE (add_systemd_manager L self) (\<lambda>_.
       bindE (slot self ''systemd_manager'' systemd_manager) (\<lambda>m.
       lib_call L m ''StopUnit'' (?args m))) s
     = lib_call L manager ''StopUnit'' (?args manager) (snd (add_systemd_manager L self s))"
    "remote_calls (issued s (snd (lib_call L manager ''StopUnit'' (?args manager)
        (snd (add_systemd_manager L self s))))) = [Method manager ''StopUnit'' (?args manager)]"
    by metis
  have "stop_unit L self unit None s =
      lib_call L manager ''StopUnit'' (?args manager) (snd (add_systemd_manager L self s))"
    unfolding stop_unit_def using m(2) by simp
  then show "\<exists>manager.
         cached (snd (add_systemd_manager L self s)) (dbus_level self) systemd_manager
           = Some manager \<and>
         remote_calls (issued s (snd (stop_unit L self unit None s))) =
           [Method manager ''StopUnit'' [PyStr unit, PyStr ''fail'']] \<and>
         fst (stop_unit L self unit None s) =
           (case L (calls (snd (add_systemd_manager L self s)))
                   (Method manager ''StopUnit'' [PyStr unit, PyStr ''fail'']) of
              Inl f \<Rightarrow> Inl (DBusException f)
            | Inr job \<Rightarrow> Inr job)"
    using m(1,3) by (auto simp: fst_lib_call)
qed

theorem stop_unit_default_job_mode_witness:
  "fst (add_systemd_manager foo_lib session session_state) = Inr () \<and>
   remote_calls (issued session_state
     (snd (stop_unit foo_lib session ''foo.service'' None session_state))) =
     [Method 2 ''StopUnit'' [PyStr ''foo.service'', PyStr ''fail'']] \<and>
   fst (stop_unit foo_lib session ''foo.service'' None session_state) =
     Inr (PyStr ''/org/freedesktop/systemd1/unit/foo_2eservice'')"
proof -
  have ok: "fst (add_systemd_manager foo_lib session session_state) = Inr ()"
    by code_simp
  have m: "cached (snd (add_systemd_manager foo_lib session session_state))
      (dbus_level session) systemd_manager = Some 2"
    by code_simp
  show ?thesis
    using stop_unit_default_job_mode [of foo_lib session "''foo.service''" session_state] ok m
    by (auto simp: foo_lib_def)
qed

section \<open>Faults of the bus library\<close>

text \<open>
  C9. A fault the library raises during an operation reaches the caller as it is.
  Whenever a call logged during a method of an instance (an accessor or a public
  operation), or during construction, faulted with \<open>f\<close>, the outcome of the
  operation is the exception \<open>f\<close>, that call is the last one the operation made
  (nothing is retried or called after it) and every call before it had succeeded
  (no earlier fault was swallowed).
\<close>

theorem faults_propagate:
  "((c, Some f) \<in> set (issued s (snd (perform L self op s))) \<longrightarrow>
      fst (perform L self op s) = Inl (DBusException f) \<and>
      last (issued s (snd (perform L self op s))) = (c, Some f) \<and>
      clean (butlast (issued s (snd (perform L self op s))))) \<and>
   ((c, Some f) \<in> set (issued s (snd (DbusInteractions L level s))) \<longrightarrow>
      fst (DbusInteractions L level s) = Inl (DBusException f) \<and>
      last (issued s (snd (DbusInteractions L level s))) = (c, Some f) \<and>
      clean (butlast (issued s (snd (DbusInteractions L level s)))))"
  using fault_is_outcome [OF passes_perform, of c f s L self op]
    fault_is_outcome [OF passes_DbusInteractions, of c f s L level]
  by blast

theorem faults_propagate_witness:
  "(Method 2 ''GetUnit'' [PyStr ''nope.service''], Some ''org.freedesktop.systemd1.NoSuchUnit'')
     \<in> set (issued session_state (snd (perform no_unit_lib session
           (Get_unit_property ''nope.service'' ''ActiveState'') session_state))) \<and>
   fst (perform no_unit_lib session (Get_unit_property ''nope.service'' ''ActiveState'')
     session_state) = Inl (DBusException ''org.freedesktop.systemd1.NoSuchUnit'') \<and>
   last (issued session_state (snd (perform no_unit_lib session
           (Get_unit_property ''nope.service'' ''ActiveState'') session_state)))
     = (Method 2 ''GetUnit'' [PyStr ''nope.service''], Some ''org.freedesktop.systemd1.NoSuchUnit'')"
proof -
  have "issued session_state (snd (perform no_unit_lib session
           (Get_unit_property ''nope.service'' ''ActiveState'') session_state)) =
     [(Get_object 0 ''org.freedesktop.systemd1'' (PyStr ''/org/freedesktop/systemd1''), None),
      (Interface 1 ''org.freedesktop.systemd1.Manager'', None),
      (Method 2 ''GetUnit'' [PyStr ''nope.service''], Some ''org.freedesktop.systemd1.NoSuchUnit'')]"
    by code_simp
  then have "(Method 2 ''GetUnit'' [PyStr ''nope.service''],
      Some ''org.freedesktop.systemd1.NoSuchUnit'')
     \<in> set (issued session_state (snd (perform no_unit_lib session
           (Get_unit_property ''nope.service'' ''ActiveState'') session_state)))"
    by simp
  then show ?thesis
    using faults_propagate [of "Method 2 ''GetUnit'' [PyStr ''nope.service'']"
        "''org.freedesktop.systemd1.NoSuchUnit''" session_state no_unit_lib session
        "Get_unit_property ''nope.service'' ''ActiveState''"]
    by blast
qed

section \<open>The two bus levels\<close>



end
